theory Spec2Isabelle
  imports Main "HOL-Library.Char_ord"
begin

section \<open>Wire types (types.go)\<close>

text \<open>
  The structs of the Hetzner DNS API. A Go \<open>*int\<close> is an \<open>int option\<close> (nil is
  \<open>None\<close>), a slice is a list option (nil is \<open>None\<close>, which JSON tells from the
  empty slice); \<open>time.Time\<close> values are opaque to the bridge and are carried as an
  instant, counted from Go's zero time. Field names carry the struct name as a prefix, since several structs
  share the names \<open>ID\<close>, \<open>Name\<close>, \<open>Type\<close>, \<open>Value\<close> and \<open>TTL\<close>.
\<close>

type_synonym Time = int

record DNSRecord =
  DNSRecord_ID :: string
  DNSRecord_Type :: string
  DNSRecord_Name :: string
  DNSRecord_Value :: string
  DNSRecord_TTL :: "int option"
  DNSRecord_ZoneID :: string
  DNSRecord_Created :: string
  DNSRecord_Modified :: string

record TxtVerification =
  TxtVerification_Name :: string
  TxtVerification_Token :: string

record Zone =
  Zone_ID :: string
  Zone_Name :: string
  Zone_TTL :: int
  Zone_Registrar :: string
  Zone_LegacyDNSHost :: string
  Zone_LegacyNS :: "string list option"
  Zone_NS :: "string list option"
  Zone_Created :: Time
  Zone_Verified :: Time
  Zone_Modified :: Time
  Zone_Project :: string
  Zone_Owner :: string
  Zone_Permission :: string
  Zone_ZoneType :: string
  Zone_Status :: string
  Zone_Paused :: bool
  Zone_IsSecondaryDNS :: bool
  Zone_TxtVerification :: TxtVerification
  Zone_RecordsCount :: int



record CreateRecordRequest =
  CreateRecordRequest_Type :: string
  CreateRecordRequest_Name :: string
  CreateRecordRequest_Value :: string
  CreateRecordRequest_TTL :: "int option"
  CreateRecordRequest_ZoneID :: string

record UpdateRecordRequest =
  UpdateRecordRequest_ZoneID :: string
  UpdateRecordRequest_Type :: string
  UpdateRecordRequest_Name :: string
  UpdateRecordRequest_Value :: string
  UpdateRecordRequest_TTL :: "int option"

text \<open>The zero value of \<open>Zone\<close>, which a composite literal starts from.\<close>

definition zeroZone :: Zone where
  "zeroZone = \<lparr>Zone_ID = [], Zone_Name = [], Zone_TTL = 0, Zone_Registrar = [],
     Zone_LegacyDNSHost = [], Zone_LegacyNS = None, Zone_NS = None, Zone_Created = 0,
     Zone_Verified = 0, Zone_Modified = 0, Zone_Project = [], Zone_Owner = [],
     Zone_Permission = [], Zone_ZoneType = [], Zone_Status = [], Zone_Paused = False,
     Zone_IsSecondaryDNS = False,
     Zone_TxtVerification = \<lparr>TxtVerification_Name = [], TxtVerification_Token = []\<rparr>,
     Zone_RecordsCount = 0\<rparr>"

definition zeroDNSRecord :: DNSRecord where
  "zeroDNSRecord = \<lparr>DNSRecord_ID = [], DNSRecord_Type = [], DNSRecord_Name = [],
     DNSRecord_Value = [], DNSRecord_TTL = None, DNSRecord_ZoneID = [],
     DNSRecord_Created = [], DNSRecord_Modified = []\<rparr>"

section \<open>The remote provider as seen through the client (client.go)\<close>

text \<open>
  Every method of \<open>Client\<close> is one HTTP exchange with the provider. The bridge only
  sees what the method returns: a value or an error (its message). The model keeps
  the list of calls issued so far, and the provider's answer to a call may depend on
  that history in any way.
\<close>

datatype call =
    CallGetZones
  | CallGetAllRecords string
  | CallUpdateRecord string UpdateRecordRequest
  | CallCreateRecord CreateRecordRequest

record Client =
  zonesReply :: "call list \<Rightarrow> string + Zone list"
  recordsReply :: "call list \<Rightarrow> string \<Rightarrow> string + DNSRecord list"
  updateReply :: "call list \<Rightarrow> string \<Rightarrow> UpdateRecordRequest \<Rightarrow> string + DNSRecord"
  createReply :: "call list \<Rightarrow> CreateRecordRequest \<Rightarrow> string + DNSRecord"

definition GetZones :: "Client \<Rightarrow> call list \<Rightarrow> (string + Zone list) \<times> call list" where
  "GetZones c log = (zonesReply c log, log @ [CallGetZones])"

definition GetAllRecords ::
  "Client \<Rightarrow> string \<Rightarrow> call list \<Rightarrow> (string + DNSRecord list) \<times> call list" where
  "GetAllRecords c zoneID log = (recordsReply c log zoneID, log @ [CallGetAllRecords zoneID])"

definition UpdateRecord ::
  "Client \<Rightarrow> string \<Rightarrow> UpdateRecordRequest \<Rightarrow> call list \<Rightarrow> (string + DNSRecord) \<times> call list" where
  "UpdateRecord c recordID req log =
     (updateReply c log recordID req, log @ [CallUpdateRecord recordID req])"

definition CreateRecord ::
  "Client \<Rightarrow> CreateRecordRequest \<Rightarrow> call list \<Rightarrow> (string + DNSRecord) \<times> call list" where
  "CreateRecord c req log = (createReply c log req, log @ [CallCreateRecord req])"

section \<open>Library functions used by the bridge\<close>

subsection \<open>Package strings\<close>

definition HasSuffix :: "string \<Rightarrow> string \<Rightarrow> bool" where
  "HasSuffix s suffix \<longleftrightarrow>
     length s \<ge> length suffix \<and> drop (length s - length suffix) s = suffix"

definition TrimSuffix :: "string \<Rightarrow> string \<Rightarrow> string" where
  "TrimSuffix s suffix =
     (if HasSuffix s suffix then take (length s - length suffix) s else s)"

definition Count :: "string \<Rightarrow> char \<Rightarrow> nat" where
  "Count s c = length (filter (\<lambda>x. x = c) s)"

fun Join :: "string list \<Rightarrow> string \<Rightarrow> string" where
  "Join [] sep = []"
| "Join [x] sep = x"
| "Join (x # y # xs) sep = x @ sep @ Join (y # xs) sep"

subsection \<open>Package net: ParseIP\<close>

text \<open>
  \<open>net.ParseIP\<close> belongs to the Go standard library, not to the repository; the
  README asks for Go 1.24, where it is \<open>netip.ParseAddr\<close> with zoned addresses
  refused. The functions below follow that parser: the first of \<open>.\<close>, \<open>:\<close> and
  \<open>%\<close> in the string selects the IPv4 or the IPv6 reader. The result is the
  16-byte form of the address, \<open>None\<close> for Go's nil.
\<close>

fun parseIPv4Fields ::
  "string \<Rightarrow> bool \<Rightarrow> bool \<Rightarrow> nat \<Rightarrow> nat \<Rightarrow> nat list \<Rightarrow> nat list option" where
  "parseIPv4Fields [] atStart prevDot val digLen flds =
     (if length flds < 3 then None else Some (flds @ [val]))"
| "parseIPv4Fields (c # s) atStart prevDot val digLen flds =
     (if CHR ''0'' \<le> c \<and> c \<le> CHR ''9'' then
        (if digLen = 1 \<and> val = 0 then None
         else if val * 10 + (of_char c - 48) > 255 then None
         else parseIPv4Fields s False False (val * 10 + (of_char c - 48)) (digLen + 1) flds)
      else if c = CHR ''.'' then
        (if atStart \<or> s = [] \<or> prevDot then None
         else if length flds = 3 then None
         else parseIPv4Fields s False True 0 0 (flds @ [val]))
      else None)"

definition parseIPv4 :: "string \<Rightarrow> nat list option" where
  "parseIPv4 s = parseIPv4Fields s True False 0 0 []"

definition hexDigit :: "char \<Rightarrow> nat option" where
  "hexDigit c =
     (if CHR ''0'' \<le> c \<and> c \<le> CHR ''9'' then Some (of_char c - 48)
      else if CHR ''a'' \<le> c \<and> c \<le> CHR ''f'' then Some (of_char c - 97 + 10)
      else if CHR ''A'' \<le> c \<and> c \<le> CHR ''F'' then Some (of_char c - 65 + 10)
      else None)"

text \<open>One group of hex digits: the value, the number of digits and the rest.\<close>

fun hexGroup :: "string \<Rightarrow> nat \<Rightarrow> nat \<Rightarrow> (nat \<times> nat \<times> string) option" where
  "hexGroup [] off acc = Some (acc, off, [])"
| "hexGroup (c # s) off acc =
     (case hexDigit c of
        None \<Rightarrow> Some (acc, off, c # s)
      | Some d \<Rightarrow>
          if off > 3 then None
          else if acc * 16 + d > 65535 then None
          else hexGroup s (Suc off) (acc * 16 + d))"

function parseIPv6Loop ::
  "string \<Rightarrow> nat list \<Rightarrow> nat option \<Rightarrow> (nat list \<times> nat option \<times> string) option" where
  "parseIPv6Loop s ip ellipsis =
     (if \<not> length ip < 16 then Some (ip, ellipsis, s)
      else case hexGroup s 0 0 of
        None \<Rightarrow> None
      | Some (acc, off, rest) \<Rightarrow>
          if off = 0 then None
          else case rest of
            [] \<Rightarrow> Some (ip @ [acc div 256, acc mod 256], ellipsis, [])
          | c # s1 \<Rightarrow>
              if c = CHR ''.'' then
                (if ellipsis = None \<and> length ip \<noteq> 12 then None
                 else if length ip + 4 > 16 then None
                 else case parseIPv4Fields s True False 0 0 [] of
                        None \<Rightarrow> None
                      | Some f \<Rightarrow> Some (ip @ f, ellipsis, []))
              else if c \<noteq> CHR '':'' \<or> s1 = [] then None
              else case s1 of
                [] \<Rightarrow> None
              | c1 # s2 \<Rightarrow>
                  if c1 = CHR '':'' then
                    (if ellipsis \<noteq> None then None
                     else if s2 = [] then
                       Some (ip @ [acc div 256, acc mod 256], Some (length ip + 2), [])
                     else parseIPv6Loop s2 (ip @ [acc div 256, acc mod 256])
                            (Some (length ip + 2)))
                  else parseIPv6Loop s1 (ip @ [acc div 256, acc mod 256]) ellipsis)"
  by pat_completeness auto
termination
  by (relation "measure (\<lambda>(s, ip, ellipsis). 16 - length ip)") auto

declare parseIPv6Loop.simps [simp del]

definition expandEllipsis :: "nat list \<times> nat option \<times> string \<Rightarrow> nat list option" where
  "expandEllipsis r =
     (case r of (ip, ellipsis, s) \<Rightarrow>
        if s \<noteq> [] then None
        else if length ip < 16 then
          (case ellipsis of
             None \<Rightarrow> None
           | Some e \<Rightarrow> Some (take e ip @ replicate (16 - length ip) 0 @ drop e ip))
        else if ellipsis \<noteq> None then None
        else Some ip)"

definition parseIPv6 :: "string \<Rightarrow> nat list option" where
  "parseIPv6 s =
     (if CHR ''%'' \<in> set s then None
      else case s of
        c # c1 # s2 \<Rightarrow>
          if c = CHR '':'' \<and> c1 = CHR '':'' then
            (if s2 = [] then Some (replicate 16 0)
             else case parseIPv6Loop s2 [] (Some 0) of
                    None \<Rightarrow> None
                  | Some r \<Rightarrow> expandEllipsis r)
          else (case parseIPv6Loop s [] None of
                  None \<Rightarrow> None
                | Some r \<Rightarrow> expandEllipsis r)
      | _ \<Rightarrow> (case parseIPv6Loop s [] None of
                None \<Rightarrow> None
              | Some r \<Rightarrow> expandEllipsis r))"

fun ParseIPScan :: "string \<Rightarrow> string \<Rightarrow> nat list option" where
  "ParseIPScan whole [] = None"
| "ParseIPScan whole (c # s) =
     (if c = CHR ''.'' then
        (case parseIPv4 whole of
           None \<Rightarrow> None
         | Some f \<Rightarrow> Some (replicate 10 0 @ [255, 255] @ f))
      else if c = CHR '':'' then parseIPv6 whole
      else if c = CHR ''%'' then None
      else ParseIPScan whole s)"

definition ParseIP :: "string \<Rightarrow> nat list option" where
  "ParseIP s = ParseIPScan s s"

subsection \<open>Package net/http: the response writer\<close>

text \<open>
  The response as \<open>httptest.ResponseRecorder\<close> records it: the status code (200
  until \<open>WriteHeader\<close> says otherwise), the header map and the body. The first
  write fixes the status; \<open>http.Error\<close> sets the plain-text headers, writes the
  status and prints the message followed by a newline.
\<close>

record ResponseWriter =
  Code :: nat
  HeaderMap :: "string \<rightharpoonup> string"
  Body :: string
  wroteHeader :: bool

definition NewRecorder :: ResponseWriter where
  "NewRecorder = \<lparr>Code = 200, HeaderMap = Map.empty, Body = [], wroteHeader = False\<rparr>"

definition Header_Set :: "ResponseWriter \<Rightarrow> string \<Rightarrow> string \<Rightarrow> ResponseWriter" where
  "Header_Set w k v = w\<lparr>HeaderMap := (HeaderMap w)(k \<mapsto> v)\<rparr>"

definition Header_Del :: "ResponseWriter \<Rightarrow> string \<Rightarrow> ResponseWriter" where
  "Header_Del w k = w\<lparr>HeaderMap := (HeaderMap w)(k := None)\<rparr>"

definition Header_Get :: "ResponseWriter \<Rightarrow> string \<Rightarrow> string" where
  "Header_Get w k = (case HeaderMap w k of None \<Rightarrow> [] | Some v \<Rightarrow> v)"

definition WriteHeader :: "ResponseWriter \<Rightarrow> nat \<Rightarrow> ResponseWriter" where
  "WriteHeader w statusCode =
     (if wroteHeader w then w else w\<lparr>Code := statusCode, wroteHeader := True\<rparr>)"

definition Write :: "ResponseWriter \<Rightarrow> string \<Rightarrow> ResponseWriter" where
  "Write w buf =
     (let w1 = (if wroteHeader w then w else WriteHeader w 200)
      in w1\<lparr>Body := Body w1 @ buf\<rparr>)"

definition Error :: "ResponseWriter \<Rightarrow> string \<Rightarrow> nat \<Rightarrow> ResponseWriter" where
  "Error w msg statusCode =
     Write
       (WriteHeader
          (Header_Set
             (Header_Set (Header_Del w ''Content-Length'')
                ''Content-Type'' ''text/plain; charset=utf-8'')
             ''X-Content-Type-Options'' ''nosniff'')
          statusCode)
       (msg @ [CHR 0x0A])"

definition StatusOK :: nat where "StatusOK = 200"
definition StatusBadRequest :: nat where "StatusBadRequest = 400"
definition StatusUnauthorized :: nat where "StatusUnauthorized = 401"

text \<open>
  The request, as far as the handler reads it: the credentials that
  \<open>r.BasicAuth()\<close> decodes (\<open>None\<close> when its \<open>ok\<close> is false) and the query
  parameters in the order of the query string. \<open>Query_Get\<close> is
  \<open>r.URL.Query().Get\<close>: the first value of the key, the empty string when the key
  is absent.
\<close>

record Request =
  BasicAuth :: "(string \<times> string) option"
  Query :: "(string \<times> string) list"

definition Query_Get :: "Request \<Rightarrow> string \<Rightarrow> string" where
  "Query_Get r key = (case map_of (Query r) key of None \<Rightarrow> [] | Some v \<Rightarrow> v)"

section \<open>The bridge (dyndns.go)\<close>

record DynDNSServer =
  client :: Client
  username :: string
  password :: string
  port :: string

definition NewDynDNSServer :: "Client \<Rightarrow> string \<Rightarrow> string \<Rightarrow> string \<Rightarrow> DynDNSServer" where
  "NewDynDNSServer c u p prt = \<lparr>client = c, username = u, password = p, port = prt\<rparr>"

definition isValidIPv4 :: "string \<Rightarrow> bool" where
  "isValidIPv4 ip \<longleftrightarrow> ParseIP ip \<noteq> None \<and> Count ip (CHR '':'') = 0"

definition isValidIPv6 :: "string \<Rightarrow> bool" where
  "isValidIPv6 ip \<longleftrightarrow> ParseIP ip \<noteq> None \<and> Count ip (CHR '':'') > 0"

text \<open>
  The first loop of \<open>updateDNSRecord\<close>: the zones in the order of the slice, an
  exact match tried before the suffix match at each zone, \<open>break\<close> at the first
  hit. \<open>None\<close> is \<open>targetZone == nil\<close> after the loop.
\<close>

fun findZone :: "string \<Rightarrow> Zone list \<Rightarrow> (Zone \<times> string) option" where
  "findZone hostname [] = None"
| "findZone hostname (zone # zones) =
     (if hostname = Zone_Name zone then Some (zone, ''@'')
      else if HasSuffix hostname (''.'' @ Zone_Name zone)
        then Some (zone, TrimSuffix hostname (''.'' @ Zone_Name zone))
      else findZone hostname zones)"

text \<open>The second loop: the first record with the wanted name and type.\<close>

fun findRecord :: "string \<Rightarrow> string \<Rightarrow> DNSRecord list \<Rightarrow> DNSRecord option" where
  "findRecord recordName recordType [] = None"
| "findRecord recordName recordType (record # records) =
     (if DNSRecord_Name record = recordName \<and> DNSRecord_Type record = recordType
        then Some record
      else findRecord recordName recordType records)"

text \<open>
  \<open>updateDNSRecord\<close> returns Go's \<open>error\<close>: \<open>None\<close> for nil, otherwise the
  message that \<open>fmt.Errorf\<close> builds. The call log is threaded through.
\<close>

definition updateDNSRecord ::
  "DynDNSServer \<Rightarrow> string \<Rightarrow> string \<Rightarrow> string \<Rightarrow> call list \<Rightarrow> string option \<times> call list" where
  "updateDNSRecord s hostname ip recordType log =
     (case GetZones (client s) log of
        (Inl err, log1) \<Rightarrow> (Some (''failed to get zones: '' @ err), log1)
      | (Inr zones, log1) \<Rightarrow>
          (case findZone hostname zones of
             None \<Rightarrow> (Some (''no zone found for hostname: '' @ hostname), log1)
           | Some (targetZone, recordName) \<Rightarrow>
               (case GetAllRecords (client s) (Zone_ID targetZone) log1 of
                  (Inl err, log2) \<Rightarrow> (Some (''failed to get records: '' @ err), log2)
                | (Inr records, log2) \<Rightarrow>
                    (case findRecord recordName recordType records of
                       Some existingRecord \<Rightarrow>
                         (case UpdateRecord (client s) (DNSRecord_ID existingRecord)
                                 \<lparr>UpdateRecordRequest_ZoneID = Zone_ID targetZone,
                                  UpdateRecordRequest_Type = recordType,
                                  UpdateRecordRequest_Name = recordName,
                                  UpdateRecordRequest_Value = ip,
                                  UpdateRecordRequest_TTL = DNSRecord_TTL existingRecord\<rparr>
                                 log2 of
                            (Inl err, log3) \<Rightarrow> (Some (''failed to update record: '' @ err), log3)
                          | (Inr rec, log3) \<Rightarrow> (None, log3))
                     | None \<Rightarrow>
                         (case CreateRecord (client s)
                                 \<lparr>CreateRecordRequest_Type = recordType,
                                  CreateRecordRequest_Name = recordName,
                                  CreateRecordRequest_Value = ip,
                                  CreateRecordRequest_TTL = Some 3600,
                                  CreateRecordRequest_ZoneID = Zone_ID targetZone\<rparr>
                                 log2 of
                            (Inl err, log3) \<Rightarrow> (Some (''failed to create record: '' @ err), log3)
                          | (Inr rec, log3) \<Rightarrow> (None, log3))))))"

text \<open>
  \<open>handleUpdate\<close>, branch by branch in the order of the source. The values
  \<open>ipv4\<close> and \<open>ipv6\<close> are the validated parameters (empty when not supplied),
  \<open>updateResults\<close> collects the summaries. Logging is left out: it reaches
  neither the response nor the provider.
\<close>

definition handleUpdate ::
  "DynDNSServer \<Rightarrow> ResponseWriter \<Rightarrow> Request \<Rightarrow> call list \<Rightarrow> ResponseWriter \<times> call list" where
  "handleUpdate s w r log =
     (if (case BasicAuth r of
            None \<Rightarrow> True
          | Some (user, pass) \<Rightarrow> user \<noteq> username s \<or> pass \<noteq> password s)
      then (Error (Header_Set w ''WWW-Authenticate''
                     (''Basic realm='' @ [CHR 0x22] @ ''DynDNS'' @ [CHR 0x22]))
              ''Unauthorized'' StatusUnauthorized, log)
      else
        let hostname = Query_Get r ''hostname'';
            myip = Query_Get r ''myip'';
            myipv6 = Query_Get r ''myipv6'';
            offline = Query_Get r ''offline''
        in
        if hostname = [] then (Error w ''Missing hostname parameter'' StatusBadRequest, log)
        else if offline = ''yes'' then (Write w ''good'', log)
        else if myip \<noteq> [] \<and> \<not> isValidIPv4 myip
          then (Error w ''Invalid IPv4 address'' StatusBadRequest, log)
        else if myipv6 \<noteq> [] \<and> \<not> isValidIPv6 myipv6
          then (Error w ''Invalid IPv6 address'' StatusBadRequest, log)
        else
          let ipv4 = myip; ipv6 = myipv6 in
          if ipv4 = [] \<and> ipv6 = []
            then (Error w ''No valid IP address provided or detected'' StatusBadRequest, log)
          else
            (case (if ipv4 \<noteq> [] then updateDNSRecord s hostname ipv4 ''A'' log
                   else (None, log)) of
               (Some err, log4) \<Rightarrow> (Write w ''911'', log4)
             | (None, log4) \<Rightarrow>
                 let updateResults4 = (if ipv4 \<noteq> [] then [''IPv4: '' @ ipv4] else []) in
                 (case (if ipv6 \<noteq> [] then updateDNSRecord s hostname ipv6 ''AAAA'' log4
                        else (None, log4)) of
                    (Some err, log6) \<Rightarrow> (Write w ''911'', log6)
                  | (None, log6) \<Rightarrow>
                      let updateResults =
                            (if ipv6 \<noteq> [] then updateResults4 @ [''IPv6: '' @ ipv6]
                             else updateResults4)
                      in
                      if length updateResults > 0
                        then (Write w (''good '' @ Join updateResults '', ''), log6)
                      else (Write w ''good'', log6))))"

section \<open>JSON encoding of the wire types (encoding/json)\<close>







subsection \<open>Marshal\<close>












subsection \<open>Unmarshal\<close>




























subsection \<open>Values that survive the round trip\<close>







section \<open>Example servers and requests, after the test suite (dyndns_test.go)\<close>

text \<open>
  \<open>mockAPI\<close> is the provider of \<open>TestHandleUpdateWithMockClient\<close>: one zone
  \<open>example.com\<close> with the record \<open>test\<close> of type \<open>A\<close>, an update of that
  record succeeds and every other path is answered 404, which the client turns into
  an error. \<open>mockAPI2\<close> follows \<open>TestUpdateDNSRecord\<close>: updates and creations
  both succeed; its record has a TTL, so that a copied TTL can be told from the
  default. \<open>testRequest\<close> is \<open>httptest.NewRequest\<close> followed by
  \<open>SetBasicAuth\<close>.
\<close>

definition mockAPI :: Client where
  "mockAPI =
     \<lparr>zonesReply = (\<lambda>log. Inr [zeroZone\<lparr>Zone_ID := ''zone123'', Zone_Name := ''example.com''\<rparr>]),
      recordsReply = (\<lambda>log zoneID.
        if zoneID = ''zone123''
        then Inr [zeroDNSRecord\<lparr>DNSRecord_ID := ''record123'', DNSRecord_Type := ''A'',
                    DNSRecord_Name := ''test'', DNSRecord_Value := ''1.2.3.4''\<rparr>]
        else Inl ''API request failed with status 404: ''),
      updateReply = (\<lambda>log recordID req.
        if recordID = ''record123''
        then Inr (zeroDNSRecord\<lparr>DNSRecord_ID := ''record123'', DNSRecord_Type := ''A'',
                    DNSRecord_Name := ''test'', DNSRecord_Value := ''1.2.3.5''\<rparr>)
        else Inl ''API request failed with status 404: ''),
      createReply = (\<lambda>log req. Inl ''API request failed with status 404: '')\<rparr>"

definition testServer :: DynDNSServer where
  "testServer = NewDynDNSServer mockAPI ''admin'' ''password'' ''8080''"

definition testRequest :: "string \<Rightarrow> string \<Rightarrow> (string \<times> string) list \<Rightarrow> Request" where
  "testRequest user pass query = \<lparr>BasicAuth = Some (user, pass), Query = query\<rparr>"

definition zoneExample :: Zone where
  "zoneExample = zeroZone\<lparr>Zone_ID := ''zone1'', Zone_Name := ''example.com''\<rparr>"

definition zoneSub :: Zone where
  "zoneSub = zeroZone\<lparr>Zone_ID := ''zone2'', Zone_Name := ''sub.example.com''\<rparr>"

definition recordTestA :: DNSRecord where
  "recordTestA = zeroDNSRecord\<lparr>DNSRecord_ID := ''rec1'', DNSRecord_Type := ''A'',
     DNSRecord_Name := ''test'', DNSRecord_Value := ''1.2.3.3'', DNSRecord_TTL := Some 7200\<rparr>"

definition mockAPI2 :: Client where
  "mockAPI2 =
     \<lparr>zonesReply = (\<lambda>log. Inr [zoneExample]),
      recordsReply = (\<lambda>log zoneID. Inr [recordTestA]),
      updateReply = (\<lambda>log recordID req.
        Inr (zeroDNSRecord\<lparr>DNSRecord_ID := ''updated'', DNSRecord_Type := UpdateRecordRequest_Type req,
               DNSRecord_Name := ''test'', DNSRecord_Value := UpdateRecordRequest_Value req\<rparr>)),
      createReply = (\<lambda>log req.
        Inr (zeroDNSRecord\<lparr>DNSRecord_ID := ''created'', DNSRecord_Type := CreateRecordRequest_Type req,
               DNSRecord_Name := ''test'', DNSRecord_Value := CreateRecordRequest_Value req\<rparr>))\<rparr>"

definition testServer2 :: DynDNSServer where
  "testServer2 = NewDynDNSServer mockAPI2 ''admin'' ''password'' ''8080''"





text \<open>Shorthand for a response that has been written, and for the headers of \<open>http.Error\<close>.\<close>

definition respond :: "nat \<Rightarrow> (string \<rightharpoonup> string) \<Rightarrow> string \<Rightarrow> ResponseWriter" where
  "respond c h b = \<lparr>Code = c, HeaderMap = h, Body = b, wroteHeader = True\<rparr>"

definition errorHeaders :: "string \<rightharpoonup> string" where
  "errorHeaders = [''Content-Type'' \<mapsto> ''text/plain; charset=utf-8'',
                   ''X-Content-Type-Options'' \<mapsto> ''nosniff'']"

section \<open>The response writer on a fresh recorder\<close>

lemma Error_NewRecorder:
  "Error NewRecorder msg c = respond c errorHeaders (msg @ [CHR 0x0A])"
  by (simp add: Error_def NewRecorder_def respond_def errorHeaders_def Write_def WriteHeader_def
      Header_Set_def Header_Del_def)

lemma Write_NewRecorder:
  "Write NewRecorder b = respond 200 Map.empty b"
  by (simp add: NewRecorder_def respond_def Write_def WriteHeader_def)

section \<open>The two halves of the handler\<close>

lemma handleUpdate_unauthorized:
  assumes "BasicAuth r \<noteq> Some (username s, password s)"
  shows "handleUpdate s w r log =
           (Error (Header_Set w ''WWW-Authenticate''
                     (''Basic realm='' @ [CHR 0x22] @ ''DynDNS'' @ [CHR 0x22]))
              ''Unauthorized'' StatusUnauthorized, log)"
  using assms unfolding handleUpdate_def by (auto split: option.splits)

text \<open>What the handler does once the credentials have been accepted.\<close>

lemma handleUpdate_authenticated:
  assumes "BasicAuth r = Some (username s, password s)"
  shows "handleUpdate s w r log =
     (let hostname = Query_Get r ''hostname'';
            myip = Query_Get r ''myip'';
            myipv6 = Query_Get r ''myipv6'';
            offline = Query_Get r ''offline''
        in
        if hostname = [] then (Error w ''Missing hostname parameter'' StatusBadRequest, log)
        else if offline = ''yes'' then (Write w ''good'', log)
        else if myip \<noteq> [] \<and> \<not> isValidIPv4 myip
          then (Error w ''Invalid IPv4 address'' StatusBadRequest, log)
        else if myipv6 \<noteq> [] \<and> \<not> isValidIPv6 myipv6
          then (Error w ''Invalid IPv6 address'' StatusBadRequest, log)
        else
          let ipv4 = myip; ipv6 = myipv6 in
          if ipv4 = [] \<and> ipv6 = []
            then (Error w ''No valid IP address provided or detected'' StatusBadRequest, log)
          else
            (case (if ipv4 \<noteq> [] then updateDNSRecord s hostname ipv4 ''A'' log
                   else (None, log)) of
               (Some err, log4) \<Rightarrow> (Write w ''911'', log4)
             | (None, log4) \<Rightarrow>
                 let updateResults4 = (if ipv4 \<noteq> [] then [''IPv4: '' @ ipv4] else []) in
                 (case (if ipv6 \<noteq> [] then updateDNSRecord s hostname ipv6 ''AAAA'' log4
                        else (None, log4)) of
                    (Some err, log6) \<Rightarrow> (Write w ''911'', log6)
                  | (None, log6) \<Rightarrow>
                      let updateResults =
                            (if ipv6 \<noteq> [] then updateResults4 @ [''IPv6: '' @ ipv6]
                             else updateResults4)
                      in
                      if length updateResults > 0
                        then (Write w (''good '' @ Join updateResults '', ''), log6)
                      else (Write w ''good'', log6))))"
  using assms unfolding handleUpdate_def by simp

lemma handleUpdate_online:
  assumes auth: "BasicAuth r = Some (username s, password s)"
    and host: "Query_Get r ''hostname'' \<noteq> []"
    and off: "Query_Get r ''offline'' \<noteq> ''yes''"
  shows "handleUpdate s w r log =
     (let hostname = Query_Get r ''hostname'';
          myip = Query_Get r ''myip'';
          myipv6 = Query_Get r ''myipv6''
      in if myip \<noteq> [] \<and> \<not> isValidIPv4 myip
          then (Error w ''Invalid IPv4 address'' StatusBadRequest, log)
        else if myipv6 \<noteq> [] \<and> \<not> isValidIPv6 myipv6
          then (Error w ''Invalid IPv6 address'' StatusBadRequest, log)
        else
          let ipv4 = myip; ipv6 = myipv6 in
          if ipv4 = [] \<and> ipv6 = []
            then (Error w ''No valid IP address provided or detected'' StatusBadRequest, log)
          else
            (case (if ipv4 \<noteq> [] then updateDNSRecord s hostname ipv4 ''A'' log
                   else (None, log)) of
               (Some err, log4) \<Rightarrow> (Write w ''911'', log4)
             | (None, log4) \<Rightarrow>
                 let updateResults4 = (if ipv4 \<noteq> [] then [''IPv4: '' @ ipv4] else []) in
                 (case (if ipv6 \<noteq> [] then updateDNSRecord s hostname ipv6 ''AAAA'' log4
                        else (None, log4)) of
                    (Some err, log6) \<Rightarrow> (Write w ''911'', log6)
                  | (None, log6) \<Rightarrow>
                      let updateResults =
                            (if ipv6 \<noteq> [] then updateResults4 @ [''IPv6: '' @ ipv6]
                             else updateResults4)
                      in
                      if length updateResults > 0
                        then (Write w (''good '' @ Join updateResults '', ''), log6)
                      else (Write w ''good'', log6))))"
  unfolding handleUpdate_authenticated [OF auth] using host off by simp

lemma handleUpdate_online_cong:
  assumes "BasicAuth r = Some (username s, password s)"
    and "BasicAuth r' = Some (username s, password s)"
    and "Query_Get r ''hostname'' \<noteq> []"
    and "Query_Get r ''offline'' \<noteq> ''yes''" and "Query_Get r' ''offline'' \<noteq> ''yes''"
    and "Query_Get r' ''hostname'' = Query_Get r ''hostname''"
    and "Query_Get r' ''myip'' = Query_Get r ''myip''"
    and "Query_Get r' ''myipv6'' = Query_Get r ''myipv6''"
  shows "handleUpdate s w r' log = handleUpdate s w r log"
proof -
  have h': "Query_Get r' ''hostname'' \<noteq> []" using assms(3,6) by simp
  show ?thesis
    unfolding handleUpdate_online [OF assms(1) assms(3) assms(4)]
      handleUpdate_online [OF assms(2) h' assms(5)]
    by (simp only: assms(6,7,8))
qed

lemma handleUpdate_missing_hostname:
  assumes "BasicAuth r = Some (username s, password s)" and "Query_Get r ''hostname'' = []"
  shows "handleUpdate s w r log = (Error w ''Missing hostname parameter'' StatusBadRequest, log)"
  unfolding handleUpdate_authenticated [OF assms(1)] using assms(2) by simp

lemma handleUpdate_offline:
  assumes "BasicAuth r = Some (username s, password s)" and "Query_Get r ''hostname'' \<noteq> []"
    and "Query_Get r ''offline'' = ''yes''"
  shows "handleUpdate s w r log = (Write w ''good'', log)"
  unfolding handleUpdate_authenticated [OF assms(1)] using assms(2,3) by simp

lemma handleUpdate_invalid4:
  assumes "BasicAuth r = Some (username s, password s)" and "Query_Get r ''hostname'' \<noteq> []"
    and "Query_Get r ''offline'' \<noteq> ''yes''"
    and "Query_Get r ''myip'' \<noteq> []" and "\<not> isValidIPv4 (Query_Get r ''myip'')"
  shows "handleUpdate s w r log = (Error w ''Invalid IPv4 address'' StatusBadRequest, log)"
  unfolding handleUpdate_online [OF assms(1,2,3)] using assms(4,5) by simp

lemma handleUpdate_invalid6:
  assumes "BasicAuth r = Some (username s, password s)" and "Query_Get r ''hostname'' \<noteq> []"
    and "Query_Get r ''offline'' \<noteq> ''yes''"
    and "Query_Get r ''myip'' = [] \<or> isValidIPv4 (Query_Get r ''myip'')"
    and "Query_Get r ''myipv6'' \<noteq> []" and "\<not> isValidIPv6 (Query_Get r ''myipv6'')"
  shows "handleUpdate s w r log = (Error w ''Invalid IPv6 address'' StatusBadRequest, log)"
  unfolding handleUpdate_online [OF assms(1,2,3)] using assms(4,5,6) by auto

lemma handleUpdate_no_address:
  assumes "BasicAuth r = Some (username s, password s)" and "Query_Get r ''hostname'' \<noteq> []"
    and "Query_Get r ''offline'' \<noteq> ''yes''"
    and "Query_Get r ''myip'' = []" and "Query_Get r ''myipv6'' = []"
  shows "handleUpdate s w r log =
           (Error w ''No valid IP address provided or detected'' StatusBadRequest, log)"
  unfolding handleUpdate_online [OF assms(1,2,3)] using assms(4,5) by simp

lemma Code_Error_NewRecorder: "Code (Error NewRecorder msg c) = c"
  by (simp add: Error_NewRecorder respond_def)

lemma Body_Error_NewRecorder: "Body (Error NewRecorder msg c) = msg @ [CHR 0x0A]"
  by (simp add: Error_NewRecorder respond_def)

lemma Code_Write_NewRecorder: "Code (Write NewRecorder b) = 200"
  by (simp add: Write_NewRecorder respond_def)

lemma Body_Write_NewRecorder: "Body (Write NewRecorder b) = b"
  by (simp add: Write_NewRecorder respond_def)

section \<open>The parser on the addresses of the test suite\<close>

lemma Count_zero_iff: "Count s c = 0 \<longleftrightarrow> c \<notin> set s"
  by (induction s) (auto simp: Count_def)

lemma ParseIP_quad: "ParseIP ''255.255.255.255'' \<noteq> None"
  by (simp add: ParseIP_def parseIPv4_def)

lemma ParseIP_256: "ParseIP ''256.1.1.1'' = None"
  by (simp add: ParseIP_def parseIPv4_def)

lemma ParseIP_loopback6: "ParseIP ''::1'' \<noteq> None"
  by (simp add: ParseIP_def parseIPv6_def expandEllipsis_def hexDigit_def parseIPv6Loop.simps)

lemma ParseIP_doc6: "ParseIP ''2001:db8::1'' \<noteq> None"
  by (simp add: ParseIP_def parseIPv6_def expandEllipsis_def hexDigit_def parseIPv6Loop.simps)

lemma ParseIP_invalid_ip: "ParseIP ''invalid.ip'' = None"
  by (simp add: ParseIP_def parseIPv4_def)

section \<open>Authentication\<close>

text \<open>
  Claim C8. A request whose Basic-Auth credentials are absent or differ from the
  configured username and password is answered with status 401 and a
  \<open>WWW-Authenticate\<close> challenge, whatever its query parameters are, and the
  provider is not contacted.
\<close>

theorem auth_gate:
  assumes "BasicAuth r \<noteq> Some (username s, password s)"
  shows "Code (fst (handleUpdate s NewRecorder r log)) = StatusUnauthorized
       \<and> Header_Get (fst (handleUpdate s NewRecorder r log)) ''WWW-Authenticate''
           = ''Basic realm='' @ [CHR 0x22] @ ''DynDNS'' @ [CHR 0x22]
       \<and> Body (fst (handleUpdate s NewRecorder r log)) = ''Unauthorized'' @ [CHR 0x0A]
       \<and> snd (handleUpdate s NewRecorder r log) = log"
  unfolding handleUpdate_unauthorized [OF assms]
  by (simp add: Error_def NewRecorder_def Write_def WriteHeader_def
      Header_Set_def Header_Del_def Header_Get_def)

theorem auth_gate_witness:
  "Code (fst (handleUpdate testServer NewRecorder
        (testRequest ''admin'' ''wrong''
           [(''hostname'', ''test.example.com''), (''myip'', ''1.2.3.5'')]) []))
     = 401
   \<and> snd (handleUpdate testServer NewRecorder
        (testRequest ''admin'' ''wrong''
           [(''hostname'', ''test.example.com''), (''myip'', ''1.2.3.5'')]) [])
     = []
   \<and> Code (fst (handleUpdate testServer NewRecorder
        \<lparr>BasicAuth = None, Query = [(''hostname'', ''test.com''), (''offline'', ''yes'')]\<rparr> []))
     = 401
   \<and> Header_Get (fst (handleUpdate testServer NewRecorder
        \<lparr>BasicAuth = None, Query = [(''hostname'', ''test.com''), (''offline'', ''yes'')]\<rparr> []))
        ''WWW-Authenticate''
     \<noteq> []"
proof -
  let ?wrong = "testRequest ''admin'' ''wrong''
           [(''hostname'', ''test.example.com''), (''myip'', ''1.2.3.5'')]"
  let ?absent = "\<lparr>BasicAuth = None, Query = [(''hostname'', ''test.com''), (''offline'', ''yes'')]\<rparr>"
  have w: "BasicAuth ?wrong \<noteq> Some (username testServer, password testServer)"
    by (simp add: testRequest_def testServer_def NewDynDNSServer_def)
  have a: "BasicAuth ?absent \<noteq> Some (username testServer, password testServer)"
    by simp
  from auth_gate [OF w, of "[]"] auth_gate [OF a, of "[]"] show ?thesis
    by (simp add: StatusUnauthorized_def)
qed

section \<open>The offline parameter\<close>

text \<open>
  Claim C6. An authenticated request with a non-empty hostname and
  \<open>offline=yes\<close> is answered with status 200 and the body \<open>good\<close>, and no
  call to the provider is made.
\<close>

theorem offline_short_circuit:
  assumes "BasicAuth r = Some (username s, password s)"
    and "Query_Get r ''hostname'' \<noteq> []"
    and "Query_Get r ''offline'' = ''yes''"
  shows "Code (fst (handleUpdate s NewRecorder r log)) = StatusOK
       \<and> Body (fst (handleUpdate s NewRecorder r log)) = ''good''
       \<and> snd (handleUpdate s NewRecorder r log) = log"
  using assms(2,3) unfolding handleUpdate_authenticated [OF assms(1)]
  by (simp add: Write_NewRecorder respond_def StatusOK_def)

theorem offline_short_circuit_witness:
  "BasicAuth (testRequest ''admin'' ''password'' [(''hostname'', ''test.com''), (''offline'', ''yes'')])
     = Some (username testServer, password testServer)
   \<and> Query_Get (testRequest ''admin'' ''password'' [(''hostname'', ''test.com''), (''offline'', ''yes'')]) ''hostname'' \<noteq> []
   \<and> Query_Get (testRequest ''admin'' ''password'' [(''hostname'', ''test.com''), (''offline'', ''yes'')]) ''offline'' = ''yes''
   \<and> handleUpdate testServer NewRecorder
        (testRequest ''admin'' ''password'' [(''hostname'', ''test.com''), (''offline'', ''yes'')]) []
       = (\<lparr>Code = 200, HeaderMap = Map.empty, Body = ''good'', wroteHeader = True\<rparr>, [])"
proof -
  let ?r = "testRequest ''admin'' ''password'' [(''hostname'', ''test.com''), (''offline'', ''yes'')]"
  have a: "BasicAuth ?r = Some (username testServer, password testServer)"
    by (simp add: testRequest_def testServer_def NewDynDNSServer_def)
  have h: "Query_Get ?r ''hostname'' \<noteq> []"
    by (simp add: testRequest_def Query_Get_def)
  have off: "Query_Get ?r ''offline'' = ''yes''"
    by (simp add: testRequest_def Query_Get_def)
  have "handleUpdate testServer NewRecorder ?r []
       = (\<lparr>Code = 200, HeaderMap = Map.empty, Body = ''good'', wroteHeader = True\<rparr>, [])"
    using h off unfolding handleUpdate_authenticated [OF a]
    by (simp add: Write_NewRecorder respond_def)
  with a h off offline_short_circuit [OF a h off, of "[]"] show ?thesis by simp
qed

text \<open>
  Claim C10. Only the value \<open>yes\<close> of the \<open>offline\<close> parameter short-circuits:
  with it the answer is 200 \<open>good\<close> whatever \<open>myip\<close> and \<open>myipv6\<close> hold, so
  address validation is skipped; with any other value a malformed address is
  answered with status 400, and the handler's result does not depend on which other
  value \<open>offline\<close> has.
\<close>

theorem offline_only_exact_yes:
  assumes auth: "BasicAuth r = Some (username s, password s)"
    and host: "Query_Get r ''hostname'' \<noteq> []"
  shows "(Query_Get r ''offline'' = ''yes'' \<longrightarrow>
            Code (fst (handleUpdate s NewRecorder r log)) = StatusOK
            \<and> Body (fst (handleUpdate s NewRecorder r log)) = ''good''
            \<and> snd (handleUpdate s NewRecorder r log) = log)
       \<and> (Query_Get r ''offline'' \<noteq> ''yes''
            \<and> ((Query_Get r ''myip'' \<noteq> [] \<and> \<not> isValidIPv4 (Query_Get r ''myip''))
               \<or> (Query_Get r ''myipv6'' \<noteq> [] \<and> \<not> isValidIPv6 (Query_Get r ''myipv6'')))
            \<longrightarrow> Code (fst (handleUpdate s NewRecorder r log)) = StatusBadRequest)
       \<and> (\<forall>r'. BasicAuth r' = BasicAuth r
              \<and> Query_Get r' ''hostname'' = Query_Get r ''hostname''
              \<and> Query_Get r' ''myip'' = Query_Get r ''myip''
              \<and> Query_Get r' ''myipv6'' = Query_Get r ''myipv6''
              \<and> Query_Get r ''offline'' \<noteq> ''yes'' \<and> Query_Get r' ''offline'' \<noteq> ''yes''
            \<longrightarrow> handleUpdate s NewRecorder r' log = handleUpdate s NewRecorder r log)"
proof (intro conjI allI impI)
  assume off: "Query_Get r ''offline'' = ''yes''"
  show "Code (fst (handleUpdate s NewRecorder r log)) = StatusOK"
    by (simp add: handleUpdate_offline [OF auth host off] Code_Write_NewRecorder StatusOK_def)
  show "Body (fst (handleUpdate s NewRecorder r log)) = ''good''"
    by (simp add: handleUpdate_offline [OF auth host off] Body_Write_NewRecorder)
  show "snd (handleUpdate s NewRecorder r log) = log"
    by (simp add: handleUpdate_offline [OF auth host off])
next
  assume h: "Query_Get r ''offline'' \<noteq> ''yes''
            \<and> ((Query_Get r ''myip'' \<noteq> [] \<and> \<not> isValidIPv4 (Query_Get r ''myip''))
               \<or> (Query_Get r ''myipv6'' \<noteq> [] \<and> \<not> isValidIPv6 (Query_Get r ''myipv6'')))"
  then have off: "Query_Get r ''offline'' \<noteq> ''yes''" by simp
  show "Code (fst (handleUpdate s NewRecorder r log)) = StatusBadRequest"
  proof (cases "Query_Get r ''myip'' \<noteq> [] \<and> \<not> isValidIPv4 (Query_Get r ''myip'')")
    case True
    then show ?thesis
      by (simp add: handleUpdate_invalid4 [OF auth host off] Code_Error_NewRecorder)
  next
    case False
    with h have v4: "Query_Get r ''myip'' = [] \<or> isValidIPv4 (Query_Get r ''myip'')"
      and v6: "Query_Get r ''myipv6'' \<noteq> []" "\<not> isValidIPv6 (Query_Get r ''myipv6'')"
      by auto
    show ?thesis
      by (simp add: handleUpdate_invalid6 [OF auth host off v4 v6] Code_Error_NewRecorder)
  qed
next
  fix r'
  assume h: "BasicAuth r' = BasicAuth r
              \<and> Query_Get r' ''hostname'' = Query_Get r ''hostname''
              \<and> Query_Get r' ''myip'' = Query_Get r ''myip''
              \<and> Query_Get r' ''myipv6'' = Query_Get r ''myipv6''
              \<and> Query_Get r ''offline'' \<noteq> ''yes'' \<and> Query_Get r' ''offline'' \<noteq> ''yes''"
  then have auth': "BasicAuth r' = Some (username s, password s)"
    using auth by simp
  from h show "handleUpdate s NewRecorder r' log = handleUpdate s NewRecorder r log"
    by (intro handleUpdate_online_cong [OF auth auth' host]) simp_all
qed

theorem offline_only_exact_yes_witness:
  "Body (fst (handleUpdate testServer NewRecorder
     (testRequest ''admin'' ''password''
        [(''hostname'', ''test.com''), (''myip'', ''invalid.ip''), (''offline'', ''yes'')]) []))
     = ''good''
   \<and> Code (fst (handleUpdate testServer NewRecorder
       (testRequest ''admin'' ''password''
          [(''hostname'', ''test.com''), (''myip'', ''invalid.ip''), (''offline'', ''yes'')]) []))
     = 200
   \<and> Code (fst (handleUpdate testServer NewRecorder
       (testRequest ''admin'' ''password''
          [(''hostname'', ''test.com''), (''myip'', ''invalid.ip''), (''offline'', ''YES'')]) []))
     = 400"
proof -
  let ?yes = "testRequest ''admin'' ''password''
        [(''hostname'', ''test.com''), (''myip'', ''invalid.ip''), (''offline'', ''yes'')]"
  let ?YES = "testRequest ''admin'' ''password''
        [(''hostname'', ''test.com''), (''myip'', ''invalid.ip''), (''offline'', ''YES'')]"
  have inv: "\<not> isValidIPv4 ''invalid.ip''"
    using ParseIP_invalid_ip by (simp add: isValidIPv4_def)
  have a1: "BasicAuth ?yes = Some (username testServer, password testServer)"
    by (simp add: testRequest_def testServer_def NewDynDNSServer_def)
  have h1: "Query_Get ?yes ''hostname'' \<noteq> []"
    by (simp add: testRequest_def Query_Get_def)
  have o1: "Query_Get ?yes ''offline'' = ''yes''"
    by (simp add: testRequest_def Query_Get_def)
  have a2: "BasicAuth ?YES = Some (username testServer, password testServer)"
    by (simp add: testRequest_def testServer_def NewDynDNSServer_def)
  have h2: "Query_Get ?YES ''hostname'' \<noteq> []"
    by (simp add: testRequest_def Query_Get_def)
  have o2: "Query_Get ?YES ''offline'' \<noteq> ''yes''"
    by (simp add: testRequest_def Query_Get_def)
  have m2: "Query_Get ?YES ''myip'' \<noteq> [] \<and> \<not> isValidIPv4 (Query_Get ?YES ''myip'')"
    using inv by (simp add: testRequest_def Query_Get_def)
  from offline_only_exact_yes [OF a1 h1, of "[]"] o1
  have p1: "Code (fst (handleUpdate testServer NewRecorder ?yes [])) = 200
      \<and> Body (fst (handleUpdate testServer NewRecorder ?yes [])) = ''good''"
    unfolding StatusOK_def by blast
  from offline_only_exact_yes [OF a2 h2, of "[]"] o2 m2
  have p2: "Code (fst (handleUpdate testServer NewRecorder ?YES [])) = 400"
    unfolding StatusBadRequest_def by blast
  from p1 p2 show ?thesis by blast
qed

section \<open>Address validation\<close>

text \<open>
  Claim C4. \<open>isValidIPv4\<close> accepts \<open>255.255.255.255\<close> and rejects \<open>256.1.1.1\<close>
  and \<open>2001:db8::1\<close>, as it rejects every string with a colon, parseable or not;
  \<open>isValidIPv6\<close> accepts \<open>::1\<close> and rejects \<open>192.168.1.1\<close>.
\<close>

theorem address_validators:
  "isValidIPv4 ''255.255.255.255''
   \<and> \<not> isValidIPv4 ''256.1.1.1''
   \<and> \<not> isValidIPv4 ''2001:db8::1''
   \<and> (\<forall>ip. CHR '':'' \<in> set ip \<longrightarrow> \<not> isValidIPv4 ip)
   \<and> isValidIPv6 ''::1''
   \<and> \<not> isValidIPv6 ''192.168.1.1''"
proof -
  have a: "isValidIPv4 ''255.255.255.255''"
    using ParseIP_quad by (simp add: isValidIPv4_def Count_def)
  have b: "\<not> isValidIPv4 ''256.1.1.1''"
    using ParseIP_256 by (simp add: isValidIPv4_def)
  have c: "\<forall>ip. CHR '':'' \<in> set ip \<longrightarrow> \<not> isValidIPv4 ip"
    by (simp add: isValidIPv4_def Count_zero_iff)
  have d: "\<not> isValidIPv4 ''2001:db8::1''"
    using c by simp
  have e: "isValidIPv6 ''::1''"
    using ParseIP_loopback6 by (simp add: isValidIPv6_def Count_def)
  have f: "\<not> isValidIPv6 ''192.168.1.1''"
    by (simp add: isValidIPv6_def Count_def)
  from a b c d e f show ?thesis by blast
qed

theorem address_validators_witness:
  "CHR '':'' \<in> set ''2001:db8::1'' \<and> ParseIP ''2001:db8::1'' \<noteq> None
   \<and> \<not> isValidIPv4 ''2001:db8::1''"
  using address_validators ParseIP_doc6 by simp

section \<open>Validation failures\<close>

text \<open>
  Claim C5, amended. For an authenticated request: an empty hostname is answered
  with status 400 and the missing-hostname message. Unless the request has a
  non-empty hostname and \<open>offline=yes\<close>, which short-circuits it before any address
  is looked at, each of the following is answered with status 400 as well: a supplied
  \<open>myip\<close> that is not a valid IPv4 address, a supplied \<open>myipv6\<close> that is not a
  valid IPv6 address, and the absence of both addresses. The message is the
  missing-hostname one when the hostname is empty; otherwise it names the invalid
  IPv4 address, the invalid IPv6 address (the IPv4 one when both are malformed), or
  the missing address. No provider call is issued in any of these cases.
\<close>

theorem validation_failures:
  assumes auth: "BasicAuth r = Some (username s, password s)"
  shows "(Query_Get r ''hostname'' = [] \<longrightarrow>
            Code (fst (handleUpdate s NewRecorder r log)) = StatusBadRequest
            \<and> Body (fst (handleUpdate s NewRecorder r log))
                = ''Missing hostname parameter'' @ [CHR 0x0A]
            \<and> snd (handleUpdate s NewRecorder r log) = log)
       \<and> ((Query_Get r ''hostname'' = [] \<or> Query_Get r ''offline'' \<noteq> ''yes'')
            \<and> Query_Get r ''myip'' \<noteq> [] \<and> \<not> isValidIPv4 (Query_Get r ''myip'') \<longrightarrow>
            Code (fst (handleUpdate s NewRecorder r log)) = StatusBadRequest
            \<and> Body (fst (handleUpdate s NewRecorder r log))
                = (if Query_Get r ''hostname'' = []
                   then ''Missing hostname parameter'' @ [CHR 0x0A]
                   else ''Invalid IPv4 address'' @ [CHR 0x0A])
            \<and> snd (handleUpdate s NewRecorder r log) = log)
       \<and> ((Query_Get r ''hostname'' = [] \<or> Query_Get r ''offline'' \<noteq> ''yes'')
            \<and> Query_Get r ''myipv6'' \<noteq> [] \<and> \<not> isValidIPv6 (Query_Get r ''myipv6'') \<longrightarrow>
            Code (fst (handleUpdate s NewRecorder r log)) = StatusBadRequest
            \<and> Body (fst (handleUpdate s NewRecorder r log))
                = (if Query_Get r ''hostname'' = []
                   then ''Missing hostname parameter'' @ [CHR 0x0A]
                   else if Query_Get r ''myip'' \<noteq> [] \<and> \<not> isValidIPv4 (Query_Get r ''myip'')
                   then ''Invalid IPv4 address'' @ [CHR 0x0A]
                   else ''Invalid IPv6 address'' @ [CHR 0x0A])
            \<and> snd (handleUpdate s NewRecorder r log) = log)
       \<and> ((Query_Get r ''hostname'' = [] \<or> Query_Get r ''offline'' \<noteq> ''yes'')
            \<and> Query_Get r ''myip'' = [] \<and> Query_Get r ''myipv6'' = [] \<longrightarrow>
            Code (fst (handleUpdate s NewRecorder r log)) = StatusBadRequest
            \<and> Body (fst (handleUpdate s NewRecorder r log))
                = (if Query_Get r ''hostname'' = []
                   then ''Missing hostname parameter'' @ [CHR 0x0A]
                   else ''No valid IP address provided or detected'' @ [CHR 0x0A])
            \<and> snd (handleUpdate s NewRecorder r log) = log)"
proof -
  have c1: "handleUpdate s NewRecorder r log
              = (Error NewRecorder ''Missing hostname parameter'' StatusBadRequest, log)"
    if "Query_Get r ''hostname'' = []"
    by (rule handleUpdate_missing_hostname [OF auth that])
  have c2: "handleUpdate s NewRecorder r log
              = (Error NewRecorder ''Invalid IPv4 address'' StatusBadRequest, log)"
    if "Query_Get r ''hostname'' \<noteq> []" "Query_Get r ''offline'' \<noteq> ''yes''"
      "Query_Get r ''myip'' \<noteq> []" "\<not> isValidIPv4 (Query_Get r ''myip'')"
    by (rule handleUpdate_invalid4 [OF auth that])
  have c3: "handleUpdate s NewRecorder r log
              = (Error NewRecorder ''Invalid IPv6 address'' StatusBadRequest, log)"
    if "Query_Get r ''hostname'' \<noteq> []" "Query_Get r ''offline'' \<noteq> ''yes''"
      "Query_Get r ''myip'' = [] \<or> isValidIPv4 (Query_Get r ''myip'')"
      "Query_Get r ''myipv6'' \<noteq> []" "\<not> isValidIPv6 (Query_Get r ''myipv6'')"
    by (rule handleUpdate_invalid6 [OF auth that])
  have c4: "handleUpdate s NewRecorder r log
              = (Error NewRecorder ''No valid IP address provided or detected'' StatusBadRequest, log)"
    if "Query_Get r ''hostname'' \<noteq> []" "Query_Get r ''offline'' \<noteq> ''yes''"
      "Query_Get r ''myip'' = []" "Query_Get r ''myipv6'' = []"
    by (rule handleUpdate_no_address [OF auth that])
  show ?thesis
  proof (cases "Query_Get r ''hostname'' = []")
    case True
    then show ?thesis
      by (simp add: c1 [OF True] Code_Error_NewRecorder Body_Error_NewRecorder)
  next
    case host: False
    show ?thesis
    proof (cases "Query_Get r ''offline'' = ''yes''")
      case True
      with host show ?thesis by simp
    next
      case off: False
      show ?thesis
      proof (cases "Query_Get r ''myip'' \<noteq> [] \<and> \<not> isValidIPv4 (Query_Get r ''myip'')")
        case True
        then show ?thesis
          using host off
          by (simp add: c2 [OF host off] Code_Error_NewRecorder Body_Error_NewRecorder)
      next
        case v4: False
        then have v4': "Query_Get r ''myip'' = [] \<or> isValidIPv4 (Query_Get r ''myip'')"
          by blast
        show ?thesis
        proof (cases "Query_Get r ''myipv6'' \<noteq> [] \<and> \<not> isValidIPv6 (Query_Get r ''myipv6'')")
          case True
          then show ?thesis
            using host off v4
            by (simp add: c3 [OF host off v4'] Code_Error_NewRecorder Body_Error_NewRecorder)
        next
          case v6: False
          show ?thesis
          proof (cases "Query_Get r ''myip'' = [] \<and> Query_Get r ''myipv6'' = []")
            case True
            then show ?thesis
              using host off
              by (simp add: c4 [OF host off] Code_Error_NewRecorder Body_Error_NewRecorder)
          next
            case False
            with host v4 v6 show ?thesis by blast
          qed
        qed
      qed
    qed
  qed
qed

theorem validation_failures_witness:
  "Code (fst (handleUpdate testServer NewRecorder (testRequest ''admin'' ''password'' []) []))
     = 400
   \<and> Body (fst (handleUpdate testServer NewRecorder
        (testRequest ''admin'' ''password'' [(''myip'', ''invalid.ip'')]) []))
     = ''Missing hostname parameter'' @ [CHR 0x0A]
   \<and> Body (fst (handleUpdate testServer NewRecorder
        (testRequest ''admin'' ''password''
           [(''hostname'', ''test.com''), (''myip'', ''invalid.ip'')]) []))
     = ''Invalid IPv4 address'' @ [CHR 0x0A]
   \<and> Body (fst (handleUpdate testServer NewRecorder
        (testRequest ''admin'' ''password''
           [(''hostname'', ''test.com''), (''myipv6'', ''invalid::ip::address'')]) []))
     = ''Invalid IPv6 address'' @ [CHR 0x0A]
   \<and> Body (fst (handleUpdate testServer NewRecorder
        (testRequest ''admin'' ''password'' [(''hostname'', ''test.com'')]) []))
     = ''No valid IP address provided or detected'' @ [CHR 0x0A]
   \<and> snd (handleUpdate testServer NewRecorder
        (testRequest ''admin'' ''password'' [(''hostname'', ''test.com'')]) [])
     = []"
proof -
  let ?r0 = "testRequest ''admin'' ''password'' []"
  let ?rh = "testRequest ''admin'' ''password'' [(''myip'', ''invalid.ip'')]"
  let ?r4 = "testRequest ''admin'' ''password''
               [(''hostname'', ''test.com''), (''myip'', ''invalid.ip'')]"
  let ?r6 = "testRequest ''admin'' ''password''
               [(''hostname'', ''test.com''), (''myipv6'', ''invalid::ip::address'')]"
  let ?rn = "testRequest ''admin'' ''password'' [(''hostname'', ''test.com'')]"
  have inv4: "\<not> isValidIPv4 ''invalid.ip''"
    using ParseIP_invalid_ip by (simp add: isValidIPv4_def)
  have inv6: "\<not> isValidIPv6 ''invalid::ip::address''"
    by (simp add: isValidIPv6_def ParseIP_def parseIPv6_def hexDigit_def parseIPv6Loop.simps)
  have auth: "BasicAuth (testRequest ''admin'' ''password'' q)
                = Some (username testServer, password testServer)" for q
    by (simp add: testRequest_def testServer_def NewDynDNSServer_def)
  have p0: "Code (fst (handleUpdate testServer NewRecorder ?r0 [])) = 400"
    using validation_failures [OF auth, of "[]" "[]"]
    by (simp add: testRequest_def Query_Get_def StatusBadRequest_def)
  have ph: "Body (fst (handleUpdate testServer NewRecorder ?rh []))
              = ''Missing hostname parameter'' @ [CHR 0x0A]"
    using validation_failures [OF auth, of "[(''myip'', ''invalid.ip'')]" "[]"] inv4
    by (simp add: testRequest_def Query_Get_def)
  have p4: "Body (fst (handleUpdate testServer NewRecorder ?r4 []))
              = ''Invalid IPv4 address'' @ [CHR 0x0A]"
    using validation_failures [OF auth, of "[(''hostname'', ''test.com''), (''myip'', ''invalid.ip'')]" "[]"] inv4
    by (simp add: testRequest_def Query_Get_def)
  have p6: "Body (fst (handleUpdate testServer NewRecorder ?r6 []))
              = ''Invalid IPv6 address'' @ [CHR 0x0A]"
    using validation_failures [OF auth, of "[(''hostname'', ''test.com''), (''myipv6'', ''invalid::ip::address'')]" "[]"] inv6
    by (simp add: testRequest_def Query_Get_def)
  have pn: "Body (fst (handleUpdate testServer NewRecorder ?rn []))
              = ''No valid IP address provided or detected'' @ [CHR 0x0A]
            \<and> snd (handleUpdate testServer NewRecorder ?rn []) = []"
    using validation_failures [OF auth, of "[(''hostname'', ''test.com'')]" "[]"]
    by (simp add: testRequest_def Query_Get_def)
  from p0 ph p4 p6 pn show ?thesis by blast
qed

text \<open>
  The claim as written, for every authenticated request, fails under
  \<open>offline=yes\<close>: the request \<open>hostname=test.com&myip=invalid.ip&offline=yes\<close>
  supplies a malformed IPv4 address and is answered with 200 \<open>good\<close>.
\<close>

theorem validation_failures_offline_counterexample:
  "BasicAuth (testRequest ''admin'' ''password''
        [(''hostname'', ''test.com''), (''myip'', ''invalid.ip''), (''offline'', ''yes'')])
     = Some (username testServer, password testServer)
   \<and> Query_Get (testRequest ''admin'' ''password''
        [(''hostname'', ''test.com''), (''myip'', ''invalid.ip''), (''offline'', ''yes'')]) ''myip''
     = ''invalid.ip''
   \<and> \<not> isValidIPv4 ''invalid.ip''
   \<and> Code (fst (handleUpdate testServer NewRecorder
        (testRequest ''admin'' ''password''
          [(''hostname'', ''test.com''), (''myip'', ''invalid.ip''), (''offline'', ''yes'')]) []))
     = 200
   \<and> Body (fst (handleUpdate testServer NewRecorder
        (testRequest ''admin'' ''password''
          [(''hostname'', ''test.com''), (''myip'', ''invalid.ip''), (''offline'', ''yes'')]) []))
     = ''good''"
proof -
  let ?r = "testRequest ''admin'' ''password''
        [(''hostname'', ''test.com''), (''myip'', ''invalid.ip''), (''offline'', ''yes'')]"
  have inv: "\<not> isValidIPv4 ''invalid.ip''"
    using ParseIP_invalid_ip by (simp add: isValidIPv4_def)
  have a: "BasicAuth ?r = Some (username testServer, password testServer)"
    by (simp add: testRequest_def testServer_def NewDynDNSServer_def)
  have h: "Query_Get ?r ''hostname'' \<noteq> []"
    by (simp add: testRequest_def Query_Get_def)
  have off: "Query_Get ?r ''offline'' = ''yes''"
    by (simp add: testRequest_def Query_Get_def)
  have ip: "Query_Get ?r ''myip'' = ''invalid.ip''"
    by (simp add: testRequest_def Query_Get_def)
  have c: "Code (fst (handleUpdate testServer NewRecorder ?r [])) = 200"
    by (simp add: handleUpdate_offline [OF a h off] Code_Write_NewRecorder)
  have b: "Body (fst (handleUpdate testServer NewRecorder ?r [])) = ''good''"
    by (simp add: handleUpdate_offline [OF a h off] Body_Write_NewRecorder)
  from a ip inv c b show ?thesis by blast
qed

section \<open>Zone resolution\<close>

lemma HasSuffix_TrimSuffix: "HasSuffix s suffix \<Longrightarrow> TrimSuffix s suffix @ suffix = s"
  unfolding HasSuffix_def TrimSuffix_def
  by (metis append_take_drop_id)

lemma HasSuffix_dot_neq: "HasSuffix h (''.'' @ n) \<Longrightarrow> h \<noteq> n"
  by (auto simp: HasSuffix_def)

lemma findZone_skip:
  assumes "\<forall>z' \<in> set pre. h \<noteq> Zone_Name z' \<and> \<not> HasSuffix h (''.'' @ Zone_Name z')"
  shows "findZone h (pre @ zs) = findZone h zs"
  using assms by (induction pre) auto

lemma findZone_None_iff:
  "findZone h zs = None
     \<longleftrightarrow> (\<forall>z \<in> set zs. h \<noteq> Zone_Name z \<and> \<not> HasSuffix h (''.'' @ Zone_Name z))"
  by (induction zs) auto

lemma findRecord_find:
  "findRecord n t rs = find (\<lambda>r. DNSRecord_Name r = n \<and> DNSRecord_Type r = t) rs"
  by (induction rs) auto

lemma updateDNSRecord_zones_error:
  assumes "zonesReply (client s) log = Inl e"
  shows "updateDNSRecord s h ip t log = (Some (''failed to get zones: '' @ e), log @ [CallGetZones])"
  using assms by (simp add: updateDNSRecord_def GetZones_def)

lemma updateDNSRecord_no_zone:
  assumes "zonesReply (client s) log = Inr zones" and "findZone h zones = None"
  shows "updateDNSRecord s h ip t log
           = (Some (''no zone found for hostname: '' @ h), log @ [CallGetZones])"
  using assms by (simp add: updateDNSRecord_def GetZones_def)

lemma updateDNSRecord_records_error:
  assumes "zonesReply (client s) log = Inr zones" and "findZone h zones = Some (z, n)"
    and "recordsReply (client s) (log @ [CallGetZones]) (Zone_ID z) = Inl e"
  shows "updateDNSRecord s h ip t log
           = (Some (''failed to get records: '' @ e),
              log @ [CallGetZones, CallGetAllRecords (Zone_ID z)])"
  using assms by (simp add: updateDNSRecord_def GetZones_def GetAllRecords_def)

lemma updateDNSRecord_existing:
  assumes "zonesReply (client s) log = Inr zones" and "findZone h zones = Some (z, n)"
    and "recordsReply (client s) (log @ [CallGetZones]) (Zone_ID z) = Inr rs"
    and "findRecord n t rs = Some ex"
  shows "updateDNSRecord s h ip t log
           = ((case updateReply (client s) (log @ [CallGetZones, CallGetAllRecords (Zone_ID z)])
                     (DNSRecord_ID ex)
                     \<lparr>UpdateRecordRequest_ZoneID = Zone_ID z, UpdateRecordRequest_Type = t,
                      UpdateRecordRequest_Name = n, UpdateRecordRequest_Value = ip,
                      UpdateRecordRequest_TTL = DNSRecord_TTL ex\<rparr> of
                 Inl e \<Rightarrow> Some (''failed to update record: '' @ e)
               | Inr rec \<Rightarrow> None),
              log @ [CallGetZones, CallGetAllRecords (Zone_ID z),
                     CallUpdateRecord (DNSRecord_ID ex)
                       \<lparr>UpdateRecordRequest_ZoneID = Zone_ID z, UpdateRecordRequest_Type = t,
                        UpdateRecordRequest_Name = n, UpdateRecordRequest_Value = ip,
                        UpdateRecordRequest_TTL = DNSRecord_TTL ex\<rparr>])"
  using assms
  by (simp add: updateDNSRecord_def GetZones_def GetAllRecords_def UpdateRecord_def
      split: sum.splits)

lemma updateDNSRecord_missing:
  assumes "zonesReply (client s) log = Inr zones" and "findZone h zones = Some (z, n)"
    and "recordsReply (client s) (log @ [CallGetZones]) (Zone_ID z) = Inr rs"
    and "findRecord n t rs = None"
  shows "updateDNSRecord s h ip t log
           = ((case createReply (client s) (log @ [CallGetZones, CallGetAllRecords (Zone_ID z)])
                     \<lparr>CreateRecordRequest_Type = t, CreateRecordRequest_Name = n,
                      CreateRecordRequest_Value = ip, CreateRecordRequest_TTL = Some 3600,
                      CreateRecordRequest_ZoneID = Zone_ID z\<rparr> of
                 Inl e \<Rightarrow> Some (''failed to create record: '' @ e)
               | Inr rec \<Rightarrow> None),
              log @ [CallGetZones, CallGetAllRecords (Zone_ID z),
                     CallCreateRecord
                       \<lparr>CreateRecordRequest_Type = t, CreateRecordRequest_Name = n,
                        CreateRecordRequest_Value = ip, CreateRecordRequest_TTL = Some 3600,
                        CreateRecordRequest_ZoneID = Zone_ID z\<rparr>])"
  using assms
  by (simp add: updateDNSRecord_def GetZones_def GetAllRecords_def CreateRecord_def
      split: sum.splits)

text \<open>
  Claim C1, amended. The zones are scanned in the given order and the first zone
  that matches the hostname either way decides: if the hostname equals its name
  the result is this zone with the record name \<open>@\<close>; if the hostname ends in a
  dot followed by its name the result is this zone with the prefix before that
  suffix. If no zone matches either way, \<open>updateDNSRecord\<close> fails with the
  zone-not-found error after the zone listing alone, with no record call.
\<close>

theorem zone_resolution_first_match:
  "((\<forall>z' \<in> set pre. h \<noteq> Zone_Name z' \<and> \<not> HasSuffix h (''.'' @ Zone_Name z'))
      \<and> h = Zone_Name z \<longrightarrow>
      findZone h (pre @ z # post) = Some (z, ''@''))
   \<and> ((\<forall>z' \<in> set pre. h \<noteq> Zone_Name z' \<and> \<not> HasSuffix h (''.'' @ Zone_Name z'))
      \<and> HasSuffix h (''.'' @ Zone_Name z) \<longrightarrow>
      (\<exists>prefix. findZone h (pre @ z # post) = Some (z, prefix)
         \<and> prefix @ ''.'' @ Zone_Name z = h))
   \<and> ((\<forall>z \<in> set zones. h \<noteq> Zone_Name z \<and> \<not> HasSuffix h (''.'' @ Zone_Name z))
      \<and> zonesReply (client s) log = Inr zones \<longrightarrow>
      updateDNSRecord s h ip t log
        = (Some (''no zone found for hostname: '' @ h), log @ [CallGetZones]))"
proof (intro conjI impI)
  assume a: "(\<forall>z' \<in> set pre. h \<noteq> Zone_Name z' \<and> \<not> HasSuffix h (''.'' @ Zone_Name z'))
      \<and> h = Zone_Name z"
  then have "\<forall>z' \<in> set pre. h \<noteq> Zone_Name z' \<and> \<not> HasSuffix h (''.'' @ Zone_Name z')"
    by blast
  then have "findZone h (pre @ z # post) = findZone h (z # post)"
    by (rule findZone_skip)
  with a show "findZone h (pre @ z # post) = Some (z, ''@'')" by simp
next
  assume a: "(\<forall>z' \<in> set pre. h \<noteq> Zone_Name z' \<and> \<not> HasSuffix h (''.'' @ Zone_Name z'))
      \<and> HasSuffix h (''.'' @ Zone_Name z)"
  then have "\<forall>z' \<in> set pre. h \<noteq> Zone_Name z' \<and> \<not> HasSuffix h (''.'' @ Zone_Name z')"
    by blast
  then have skip: "findZone h (pre @ z # post) = findZone h (z # post)"
    by (rule findZone_skip)
  from a have suf: "HasSuffix h (''.'' @ Zone_Name z)" by simp
  then have "h \<noteq> Zone_Name z" by (rule HasSuffix_dot_neq)
  with suf skip have "findZone h (pre @ z # post)
      = Some (z, TrimSuffix h (''.'' @ Zone_Name z))" by simp
  moreover from suf have "TrimSuffix h (''.'' @ Zone_Name z) @ ''.'' @ Zone_Name z = h"
    by (rule HasSuffix_TrimSuffix)
  ultimately show "\<exists>prefix. findZone h (pre @ z # post) = Some (z, prefix)
         \<and> prefix @ ''.'' @ Zone_Name z = h" by blast
next
  assume a: "(\<forall>z \<in> set zones. h \<noteq> Zone_Name z \<and> \<not> HasSuffix h (''.'' @ Zone_Name z))
      \<and> zonesReply (client s) log = Inr zones"
  then have "findZone h zones = None" by (simp add: findZone_None_iff)
  with a show "updateDNSRecord s h ip t log
        = (Some (''no zone found for hostname: '' @ h), log @ [CallGetZones])"
    by (simp add: updateDNSRecord_no_zone)
qed

theorem zone_resolution_first_match_witness:
  "findZone ''example.com'' ([] @ zoneExample # [zoneSub]) = Some (zoneExample, ''@'')
   \<and> (\<exists>prefix. findZone ''test.example.com'' ([zoneSub] @ zoneExample # []) = Some (zoneExample, prefix)
         \<and> prefix @ ''.'' @ Zone_Name zoneExample = ''test.example.com'')
   \<and> updateDNSRecord testServer ''test.notfound.com'' ''1.2.3.4'' ''A'' []
        = (Some (''no zone found for hostname: '' @ ''test.notfound.com''), [] @ [CallGetZones])"
proof -
  have n1: "Zone_Name zoneExample = ''example.com''"
    by (simp add: zoneExample_def)
  have n2: "Zone_Name zoneSub = ''sub.example.com''"
    by (simp add: zoneSub_def)
  have w1: "findZone ''example.com'' ([] @ zoneExample # [zoneSub]) = Some (zoneExample, ''@'')"
    using zone_resolution_first_match [where pre = "[]" and h = "''example.com''"
        and z = zoneExample and post = "[zoneSub]"] n1
    by simp
  have h2: "(\<forall>z' \<in> set [zoneSub]. ''test.example.com'' \<noteq> Zone_Name z'
               \<and> \<not> HasSuffix ''test.example.com'' (''.'' @ Zone_Name z'))
            \<and> HasSuffix ''test.example.com'' (''.'' @ Zone_Name zoneExample)"
    by (simp add: n1 n2 HasSuffix_def)
  have w2: "\<exists>prefix. findZone ''test.example.com'' ([zoneSub] @ zoneExample # []) = Some (zoneExample, prefix)
         \<and> prefix @ ''.'' @ Zone_Name zoneExample = ''test.example.com''"
    using zone_resolution_first_match [where pre = "[zoneSub]" and h = "''test.example.com''"
        and z = zoneExample and post = "[]"] h2
    by blast
  have h3: "(\<forall>z \<in> set [zeroZone\<lparr>Zone_ID := ''zone123'', Zone_Name := ''example.com''\<rparr>].
               ''test.notfound.com'' \<noteq> Zone_Name z
               \<and> \<not> HasSuffix ''test.notfound.com'' (''.'' @ Zone_Name z))
            \<and> zonesReply (client testServer) []
                = Inr [zeroZone\<lparr>Zone_ID := ''zone123'', Zone_Name := ''example.com''\<rparr>]"
    by (simp add: HasSuffix_def testServer_def NewDynDNSServer_def mockAPI_def)
  have w3: "updateDNSRecord testServer ''test.notfound.com'' ''1.2.3.4'' ''A'' []
        = (Some (''no zone found for hostname: '' @ ''test.notfound.com''), [] @ [CallGetZones])"
    using zone_resolution_first_match [where h = "''test.notfound.com''"
        and zones = "[zeroZone\<lparr>Zone_ID := ''zone123'', Zone_Name := ''example.com''\<rparr>]"
        and s = testServer and log = "[]" and ip = "''1.2.3.4''" and t = "''A''"] h3
    by blast
  from w1 w2 w3 show ?thesis by blast
qed

text \<open>
  The claim as written lets the first zone whose name equals the hostname, and the
  first zone whose name is a proper suffix, each decide on its own. With the zones
  \<open>example.com\<close>, \<open>sub.example.com\<close> in this order and the hostname
  \<open>sub.example.com\<close>, the only zone with an equal name is the second one, yet the
  scan stops at the first zone with the record name \<open>sub\<close>; in the opposite order
  the only zone with a suffix match is \<open>example.com\<close>, yet the scan stops at
  \<open>sub.example.com\<close> with \<open>@\<close>.
\<close>

theorem zone_resolution_overlap_counterexample:
  "Zone_Name zoneExample \<noteq> ''sub.example.com''
   \<and> Zone_Name zoneSub = ''sub.example.com''
   \<and> findZone ''sub.example.com'' [zoneExample, zoneSub] = Some (zoneExample, ''sub'')
   \<and> findZone ''sub.example.com'' [zoneExample, zoneSub] \<noteq> Some (zoneSub, ''@'')
   \<and> \<not> HasSuffix ''sub.example.com'' (''.'' @ Zone_Name zoneSub)
   \<and> HasSuffix ''sub.example.com'' (''.'' @ Zone_Name zoneExample)
   \<and> findZone ''sub.example.com'' [zoneSub, zoneExample] = Some (zoneSub, ''@'')
   \<and> findZone ''sub.example.com'' [zoneSub, zoneExample] \<noteq> Some (zoneExample, ''sub'')"
  by (simp add: zoneExample_def zoneSub_def zeroZone_def HasSuffix_def TrimSuffix_def)

section \<open>The apply stage of the handler\<close>

lemma handleUpdate_validated:
  assumes auth: "BasicAuth r = Some (username s, password s)"
    and host: "Query_Get r ''hostname'' \<noteq> []"
    and off: "Query_Get r ''offline'' \<noteq> ''yes''"
    and v4: "Query_Get r ''myip'' = [] \<or> isValidIPv4 (Query_Get r ''myip'')"
    and v6: "Query_Get r ''myipv6'' = [] \<or> isValidIPv6 (Query_Get r ''myipv6'')"
    and some: "Query_Get r ''myip'' \<noteq> [] \<or> Query_Get r ''myipv6'' \<noteq> []"
  shows "handleUpdate s w r log =
     (case (if Query_Get r ''myip'' \<noteq> []
            then updateDNSRecord s (Query_Get r ''hostname'') (Query_Get r ''myip'') ''A'' log
            else (None, log)) of
        (Some err, log4) \<Rightarrow> (Write w ''911'', log4)
      | (None, log4) \<Rightarrow>
          (case (if Query_Get r ''myipv6'' \<noteq> []
                 then updateDNSRecord s (Query_Get r ''hostname'') (Query_Get r ''myipv6'') ''AAAA'' log4
                 else (None, log4)) of
             (Some err, log6) \<Rightarrow> (Write w ''911'', log6)
           | (None, log6) \<Rightarrow>
               (Write w (''good '' @ Join
                   ((if Query_Get r ''myip'' \<noteq> [] then [''IPv4: '' @ Query_Get r ''myip''] else [])
                    @ (if Query_Get r ''myipv6'' \<noteq> [] then [''IPv6: '' @ Query_Get r ''myipv6''] else []))
                   '', ''), log6)))"
proof -
  have n4: "\<not> (Query_Get r ''myip'' \<noteq> [] \<and> \<not> isValidIPv4 (Query_Get r ''myip''))"
    using v4 by blast
  have n6: "\<not> (Query_Get r ''myipv6'' \<noteq> [] \<and> \<not> isValidIPv6 (Query_Get r ''myipv6''))"
    using v6 by blast
  have nn: "\<not> (Query_Get r ''myip'' = [] \<and> Query_Get r ''myipv6'' = [])"
    using some by blast
  show ?thesis
    unfolding handleUpdate_online [OF auth host off] Let_def
    by (simp only: n4 n6 nn if_False)
       (use some in \<open>auto split: prod.splits option.splits\<close>)
qed

text \<open>The three ways through the apply stage of a validated request.\<close>

lemma handleUpdate_v4_fails:
  assumes "BasicAuth r = Some (username s, password s)"
    and "Query_Get r ''hostname'' \<noteq> []"
    and "Query_Get r ''offline'' \<noteq> ''yes''"
    and "Query_Get r ''myip'' = [] \<or> isValidIPv4 (Query_Get r ''myip'')"
    and "Query_Get r ''myipv6'' = [] \<or> isValidIPv6 (Query_Get r ''myipv6'')"
    and "Query_Get r ''myip'' \<noteq> []"
    and "updateDNSRecord s (Query_Get r ''hostname'') (Query_Get r ''myip'') ''A'' log
           = (Some e, log4)"
  shows "handleUpdate s w r log = (Write w ''911'', log4)"
  using assms(6,7) by (simp add: handleUpdate_validated [OF assms(1-5)])

lemma handleUpdate_v6_fails:
  assumes "BasicAuth r = Some (username s, password s)"
    and "Query_Get r ''hostname'' \<noteq> []"
    and "Query_Get r ''offline'' \<noteq> ''yes''"
    and "Query_Get r ''myip'' = [] \<or> isValidIPv4 (Query_Get r ''myip'')"
    and "Query_Get r ''myipv6'' = [] \<or> isValidIPv6 (Query_Get r ''myipv6'')"
    and "Query_Get r ''myipv6'' \<noteq> []"
    and "(if Query_Get r ''myip'' \<noteq> []
          then updateDNSRecord s (Query_Get r ''hostname'') (Query_Get r ''myip'') ''A'' log
          else (None, log)) = (None, log4)"
    and "updateDNSRecord s (Query_Get r ''hostname'') (Query_Get r ''myipv6'') ''AAAA'' log4
           = (Some e, log6)"
  shows "handleUpdate s w r log = (Write w ''911'', log6)"
proof -
  have some: "Query_Get r ''myip'' \<noteq> [] \<or> Query_Get r ''myipv6'' \<noteq> []"
    using assms(6) by simp
  show ?thesis
    using assms(6,7,8) by (simp add: handleUpdate_validated [OF assms(1-5) some])
qed

lemma handleUpdate_success:
  assumes "BasicAuth r = Some (username s, password s)"
    and "Query_Get r ''hostname'' \<noteq> []"
    and "Query_Get r ''offline'' \<noteq> ''yes''"
    and "Query_Get r ''myip'' = [] \<or> isValidIPv4 (Query_Get r ''myip'')"
    and "Query_Get r ''myipv6'' = [] \<or> isValidIPv6 (Query_Get r ''myipv6'')"
    and "Query_Get r ''myip'' \<noteq> [] \<or> Query_Get r ''myipv6'' \<noteq> []"
    and "(if Query_Get r ''myip'' \<noteq> []
          then updateDNSRecord s (Query_Get r ''hostname'') (Query_Get r ''myip'') ''A'' log
          else (None, log)) = (None, log4)"
    and "(if Query_Get r ''myipv6'' \<noteq> []
          then updateDNSRecord s (Query_Get r ''hostname'') (Query_Get r ''myipv6'') ''AAAA'' log4
          else (None, log4)) = (None, log6)"
  shows "handleUpdate s w r log =
           (Write w (''good '' @ Join
               ((if Query_Get r ''myip'' \<noteq> [] then [''IPv4: '' @ Query_Get r ''myip''] else [])
                @ (if Query_Get r ''myipv6'' \<noteq> [] then [''IPv6: '' @ Query_Get r ''myipv6''] else []))
               '', ''), log6)"
  unfolding handleUpdate_validated [OF assms(1-6)] assms(7) using assms(8) by simp

section \<open>Update or create\<close>

text \<open>
  Claim C2. With the zone and record name resolved and the zone's records fetched,
  the first record whose name and type equal the record name and the requested type
  is selected. If there is one, the update call goes to its ID and carries its TTL;
  if there is none, the create call carries the TTL 3600. The handler requests the
  type \<open>A\<close> for \<open>myip\<close> and \<open>AAAA\<close> for \<open>myipv6\<close>.
\<close>

theorem update_or_create_decision:
  assumes zones: "zonesReply (client s) log = Inr zones"
    and res: "findZone hostname zones = Some (zone, recordName)"
    and recs: "recordsReply (client s) (log @ [CallGetZones]) (Zone_ID zone) = Inr records"
  shows "(find (\<lambda>r. DNSRecord_Name r = recordName \<and> DNSRecord_Type r = t) records = Some existing
            \<longrightarrow> snd (updateDNSRecord s hostname ip t log)
                  = log @ [CallGetZones, CallGetAllRecords (Zone_ID zone),
                           CallUpdateRecord (DNSRecord_ID existing)
                             \<lparr>UpdateRecordRequest_ZoneID = Zone_ID zone,
                              UpdateRecordRequest_Type = t,
                              UpdateRecordRequest_Name = recordName,
                              UpdateRecordRequest_Value = ip,
                              UpdateRecordRequest_TTL = DNSRecord_TTL existing\<rparr>])
       \<and> (find (\<lambda>r. DNSRecord_Name r = recordName \<and> DNSRecord_Type r = t) records = None
            \<longrightarrow> snd (updateDNSRecord s hostname ip t log)
                  = log @ [CallGetZones, CallGetAllRecords (Zone_ID zone),
                           CallCreateRecord
                             \<lparr>CreateRecordRequest_Type = t,
                              CreateRecordRequest_Name = recordName,
                              CreateRecordRequest_Value = ip,
                              CreateRecordRequest_TTL = Some 3600,
                              CreateRecordRequest_ZoneID = Zone_ID zone\<rparr>])
       \<and> (BasicAuth r = Some (username s, password s)
            \<and> Query_Get r ''hostname'' = hostname \<and> hostname \<noteq> []
            \<and> Query_Get r ''offline'' \<noteq> ''yes''
            \<and> Query_Get r ''myip'' = ip \<and> ip \<noteq> [] \<and> isValidIPv4 ip
            \<and> Query_Get r ''myipv6'' = []
            \<longrightarrow> snd (handleUpdate s w r log) = snd (updateDNSRecord s hostname ip ''A'' log))
       \<and> (BasicAuth r = Some (username s, password s)
            \<and> Query_Get r ''hostname'' = hostname \<and> hostname \<noteq> []
            \<and> Query_Get r ''offline'' \<noteq> ''yes''
            \<and> Query_Get r ''myip'' = []
            \<and> Query_Get r ''myipv6'' = ip \<and> ip \<noteq> [] \<and> isValidIPv6 ip
            \<longrightarrow> snd (handleUpdate s w r log) = snd (updateDNSRecord s hostname ip ''AAAA'' log))"
proof (intro conjI impI)
  assume "find (\<lambda>r. DNSRecord_Name r = recordName \<and> DNSRecord_Type r = t) records = Some existing"
  then have "findRecord recordName t records = Some existing"
    by (simp add: findRecord_find)
  then show "snd (updateDNSRecord s hostname ip t log)
                  = log @ [CallGetZones, CallGetAllRecords (Zone_ID zone),
                           CallUpdateRecord (DNSRecord_ID existing)
                             \<lparr>UpdateRecordRequest_ZoneID = Zone_ID zone,
                              UpdateRecordRequest_Type = t,
                              UpdateRecordRequest_Name = recordName,
                              UpdateRecordRequest_Value = ip,
                              UpdateRecordRequest_TTL = DNSRecord_TTL existing\<rparr>]"
    by (simp add: updateDNSRecord_existing [OF zones res recs])
next
  assume "find (\<lambda>r. DNSRecord_Name r = recordName \<and> DNSRecord_Type r = t) records = None"
  then have "findRecord recordName t records = None"
    by (simp add: findRecord_find)
  then show "snd (updateDNSRecord s hostname ip t log)
                  = log @ [CallGetZones, CallGetAllRecords (Zone_ID zone),
                           CallCreateRecord
                             \<lparr>CreateRecordRequest_Type = t,
                              CreateRecordRequest_Name = recordName,
                              CreateRecordRequest_Value = ip,
                              CreateRecordRequest_TTL = Some 3600,
                              CreateRecordRequest_ZoneID = Zone_ID zone\<rparr>]"
    by (simp add: updateDNSRecord_missing [OF zones res recs])
next
  assume a: "BasicAuth r = Some (username s, password s)
            \<and> Query_Get r ''hostname'' = hostname \<and> hostname \<noteq> []
            \<and> Query_Get r ''offline'' \<noteq> ''yes''
            \<and> Query_Get r ''myip'' = ip \<and> ip \<noteq> [] \<and> isValidIPv4 ip
            \<and> Query_Get r ''myipv6'' = []"
  then have "handleUpdate s w r log =
     (case updateDNSRecord s hostname ip ''A'' log of
        (Some err, log4) \<Rightarrow> (Write w ''911'', log4)
      | (None, log4) \<Rightarrow> (Write w (''good '' @ Join [''IPv4: '' @ ip] '', ''), log4))"
    by (subst handleUpdate_validated) (auto split: prod.splits option.splits)
  then show "snd (handleUpdate s w r log) = snd (updateDNSRecord s hostname ip ''A'' log)"
    by (simp split: prod.splits option.splits)
next
  assume a: "BasicAuth r = Some (username s, password s)
            \<and> Query_Get r ''hostname'' = hostname \<and> hostname \<noteq> []
            \<and> Query_Get r ''offline'' \<noteq> ''yes''
            \<and> Query_Get r ''myip'' = []
            \<and> Query_Get r ''myipv6'' = ip \<and> ip \<noteq> [] \<and> isValidIPv6 ip"
  then have "handleUpdate s w r log =
     (case updateDNSRecord s hostname ip ''AAAA'' log of
        (Some err, log6) \<Rightarrow> (Write w ''911'', log6)
      | (None, log6) \<Rightarrow> (Write w (''good '' @ Join [''IPv6: '' @ ip] '', ''), log6))"
    by (subst handleUpdate_validated) (auto split: prod.splits option.splits)
  then show "snd (handleUpdate s w r log) = snd (updateDNSRecord s hostname ip ''AAAA'' log)"
    by (simp split: prod.splits option.splits)
qed

section \<open>The example servers at work\<close>

lemma isValidIPv4_1234: "isValidIPv4 ''1.2.3.4''"
  by (simp add: isValidIPv4_def ParseIP_def parseIPv4_def Count_def)

lemma isValidIPv4_1235: "isValidIPv4 ''1.2.3.5''"
  by (simp add: isValidIPv4_def ParseIP_def parseIPv4_def Count_def)

lemma isValidIPv6_doc: "isValidIPv6 ''2001:db8::1''"
  using ParseIP_doc6 by (simp add: isValidIPv6_def Count_def)

lemma findZone_test_example:
  "findZone ''test.example.com'' [zoneExample] = Some (zoneExample, ''test'')"
  by (simp add: zoneExample_def zeroZone_def HasSuffix_def TrimSuffix_def)

lemma testServer2_update_A:
  "updateDNSRecord testServer2 ''test.example.com'' ''1.2.3.4'' ''A'' log
     = (None, log @ [CallGetZones, CallGetAllRecords ''zone1'',
                 CallUpdateRecord ''rec1''
                   \<lparr>UpdateRecordRequest_ZoneID = ''zone1'', UpdateRecordRequest_Type = ''A'',
                    UpdateRecordRequest_Name = ''test'', UpdateRecordRequest_Value = ''1.2.3.4'',
                    UpdateRecordRequest_TTL = Some 7200\<rparr>])"
proof -
  have z: "zonesReply (client testServer2) log = Inr [zoneExample]"
    by (simp add: testServer2_def NewDynDNSServer_def mockAPI2_def)
  have rs: "recordsReply (client testServer2) (log @ [CallGetZones]) (Zone_ID zoneExample)
              = Inr [recordTestA]"
    by (simp add: testServer2_def NewDynDNSServer_def mockAPI2_def)
  have f: "findRecord ''test'' ''A'' [recordTestA] = Some recordTestA"
    by (simp add: recordTestA_def zeroDNSRecord_def)
  show ?thesis
    unfolding updateDNSRecord_existing [OF z findZone_test_example rs f]
    by (simp add: testServer2_def NewDynDNSServer_def mockAPI2_def recordTestA_def
        zeroDNSRecord_def zoneExample_def zeroZone_def)
qed

lemma testServer2_create_AAAA:
  "updateDNSRecord testServer2 ''test.example.com'' ''2001:db8::1'' ''AAAA'' log
     = (None, log @ [CallGetZones, CallGetAllRecords ''zone1'',
                 CallCreateRecord
                   \<lparr>CreateRecordRequest_Type = ''AAAA'', CreateRecordRequest_Name = ''test'',
                    CreateRecordRequest_Value = ''2001:db8::1'',
                    CreateRecordRequest_TTL = Some 3600,
                    CreateRecordRequest_ZoneID = ''zone1''\<rparr>])"
proof -
  have z: "zonesReply (client testServer2) log = Inr [zoneExample]"
    by (simp add: testServer2_def NewDynDNSServer_def mockAPI2_def)
  have rs: "recordsReply (client testServer2) (log @ [CallGetZones]) (Zone_ID zoneExample)
              = Inr [recordTestA]"
    by (simp add: testServer2_def NewDynDNSServer_def mockAPI2_def)
  have f: "findRecord ''test'' ''AAAA'' [recordTestA] = None"
    by (simp add: recordTestA_def zeroDNSRecord_def)
  show ?thesis
    unfolding updateDNSRecord_missing [OF z findZone_test_example rs f]
    by (simp add: testServer2_def NewDynDNSServer_def mockAPI2_def
        zoneExample_def zeroZone_def)
qed

theorem update_or_create_decision_witness:
  "snd (updateDNSRecord testServer2 ''test.example.com'' ''1.2.3.4'' ''A'' [])
     = [CallGetZones, CallGetAllRecords ''zone1'',
        CallUpdateRecord ''rec1''
          \<lparr>UpdateRecordRequest_ZoneID = ''zone1'', UpdateRecordRequest_Type = ''A'',
           UpdateRecordRequest_Name = ''test'', UpdateRecordRequest_Value = ''1.2.3.4'',
           UpdateRecordRequest_TTL = Some 7200\<rparr>]
   \<and> snd (updateDNSRecord testServer2 ''test.example.com'' ''2001:db8::1'' ''AAAA'' [])
     = [CallGetZones, CallGetAllRecords ''zone1'',
        CallCreateRecord
          \<lparr>CreateRecordRequest_Type = ''AAAA'', CreateRecordRequest_Name = ''test'',
           CreateRecordRequest_Value = ''2001:db8::1'', CreateRecordRequest_TTL = Some 3600,
           CreateRecordRequest_ZoneID = ''zone1''\<rparr>]
   \<and> snd (handleUpdate testServer2 NewRecorder
          (testRequest ''admin'' ''password''
             [(''hostname'', ''test.example.com''), (''myip'', ''1.2.3.4'')]) [])
     = snd (updateDNSRecord testServer2 ''test.example.com'' ''1.2.3.4'' ''A'' [])
   \<and> snd (handleUpdate testServer2 NewRecorder
          (testRequest ''admin'' ''password''
             [(''hostname'', ''test.example.com''), (''myipv6'', ''2001:db8::1'')]) [])
     = snd (updateDNSRecord testServer2 ''test.example.com'' ''2001:db8::1'' ''AAAA'' [])"
proof -
  let ?r4 = "testRequest ''admin'' ''password''
               [(''hostname'', ''test.example.com''), (''myip'', ''1.2.3.4'')]"
  let ?r6 = "testRequest ''admin'' ''password''
               [(''hostname'', ''test.example.com''), (''myipv6'', ''2001:db8::1'')]"
  have z: "zonesReply (client testServer2) [] = Inr [zoneExample]"
    by (simp add: testServer2_def NewDynDNSServer_def mockAPI2_def)
  have rs: "recordsReply (client testServer2) ([] @ [CallGetZones]) (Zone_ID zoneExample)
              = Inr [recordTestA]"
    by (simp add: testServer2_def NewDynDNSServer_def mockAPI2_def)
  have fA: "find (\<lambda>r. DNSRecord_Name r = ''test'' \<and> DNSRecord_Type r = ''A'') [recordTestA]
              = Some recordTestA"
    by (simp add: recordTestA_def zeroDNSRecord_def)
  have f6: "find (\<lambda>r. DNSRecord_Name r = ''test'' \<and> DNSRecord_Type r = ''AAAA'') [recordTestA]
              = None"
    by (simp add: recordTestA_def zeroDNSRecord_def)
  have ids: "Zone_ID zoneExample = ''zone1''" "DNSRecord_ID recordTestA = ''rec1''"
    "DNSRecord_TTL recordTestA = Some 7200"
    by (simp_all add: zoneExample_def zeroZone_def recordTestA_def zeroDNSRecord_def)
  have a4: "BasicAuth ?r4 = Some (username testServer2, password testServer2)
            \<and> Query_Get ?r4 ''hostname'' = ''test.example.com'' \<and> ''test.example.com'' \<noteq> []
            \<and> Query_Get ?r4 ''offline'' \<noteq> ''yes''
            \<and> Query_Get ?r4 ''myip'' = ''1.2.3.4'' \<and> ''1.2.3.4'' \<noteq> [] \<and> isValidIPv4 ''1.2.3.4''
            \<and> Query_Get ?r4 ''myipv6'' = []"
    using isValidIPv4_1234
    by (simp add: testRequest_def testServer2_def NewDynDNSServer_def Query_Get_def)
  have a6: "BasicAuth ?r6 = Some (username testServer2, password testServer2)
            \<and> Query_Get ?r6 ''hostname'' = ''test.example.com'' \<and> ''test.example.com'' \<noteq> []
            \<and> Query_Get ?r6 ''offline'' \<noteq> ''yes''
            \<and> Query_Get ?r6 ''myip'' = []
            \<and> Query_Get ?r6 ''myipv6'' = ''2001:db8::1'' \<and> ''2001:db8::1'' \<noteq> []
            \<and> isValidIPv6 ''2001:db8::1''"
    using isValidIPv6_doc
    by (simp add: testRequest_def testServer2_def NewDynDNSServer_def Query_Get_def)
  note thA = update_or_create_decision [OF z findZone_test_example rs,
      where t = "''A''" and ip = "''1.2.3.4''" and existing = recordTestA
        and r = ?r4 and w = NewRecorder]
  note th6 = update_or_create_decision [OF z findZone_test_example rs,
      where t = "''AAAA''" and ip = "''2001:db8::1''" and r = ?r6 and w = NewRecorder]
  have w1: "snd (updateDNSRecord testServer2 ''test.example.com'' ''1.2.3.4'' ''A'' [])
     = [CallGetZones, CallGetAllRecords ''zone1'',
        CallUpdateRecord ''rec1''
          \<lparr>UpdateRecordRequest_ZoneID = ''zone1'', UpdateRecordRequest_Type = ''A'',
           UpdateRecordRequest_Name = ''test'', UpdateRecordRequest_Value = ''1.2.3.4'',
           UpdateRecordRequest_TTL = Some 7200\<rparr>]"
    using thA fA by (simp add: ids)
  have w2: "snd (updateDNSRecord testServer2 ''test.example.com'' ''2001:db8::1'' ''AAAA'' [])
     = [CallGetZones, CallGetAllRecords ''zone1'',
        CallCreateRecord
          \<lparr>CreateRecordRequest_Type = ''AAAA'', CreateRecordRequest_Name = ''test'',
           CreateRecordRequest_Value = ''2001:db8::1'', CreateRecordRequest_TTL = Some 3600,
           CreateRecordRequest_ZoneID = ''zone1''\<rparr>]"
    using th6 f6 by (simp add: ids)
  have w3: "snd (handleUpdate testServer2 NewRecorder ?r4 [])
     = snd (updateDNSRecord testServer2 ''test.example.com'' ''1.2.3.4'' ''A'' [])"
    using thA a4 by blast
  have w4: "snd (handleUpdate testServer2 NewRecorder ?r6 [])
     = snd (updateDNSRecord testServer2 ''test.example.com'' ''2001:db8::1'' ''AAAA'' [])"
    using th6 a6 by blast
  from w1 w2 w3 w4 show ?thesis by blast
qed

section \<open>Responses of the apply stage\<close>

lemma updateDNSRecord_fails_iff:
  "fst (updateDNSRecord s h ip t l) \<noteq> None \<longleftrightarrow>
     (case zonesReply (client s) l of
        Inl e \<Rightarrow> True
      | Inr zones \<Rightarrow>
          (case findZone h zones of
             None \<Rightarrow> True
           | Some (z, n) \<Rightarrow>
               (case recordsReply (client s) (l @ [CallGetZones]) (Zone_ID z) of
                  Inl e \<Rightarrow> True
                | Inr rs \<Rightarrow>
                    (case findRecord n t rs of
                       Some ex \<Rightarrow>
                         isl (updateReply (client s)
                                (l @ [CallGetZones, CallGetAllRecords (Zone_ID z)])
                                (DNSRecord_ID ex)
                                \<lparr>UpdateRecordRequest_ZoneID = Zone_ID z,
                                 UpdateRecordRequest_Type = t,
                                 UpdateRecordRequest_Name = n,
                                 UpdateRecordRequest_Value = ip,
                                 UpdateRecordRequest_TTL = DNSRecord_TTL ex\<rparr>)
                     | None \<Rightarrow>
                         isl (createReply (client s)
                                (l @ [CallGetZones, CallGetAllRecords (Zone_ID z)])
                                \<lparr>CreateRecordRequest_Type = t,
                                 CreateRecordRequest_Name = n,
                                 CreateRecordRequest_Value = ip,
                                 CreateRecordRequest_TTL = Some 3600,
                                 CreateRecordRequest_ZoneID = Zone_ID z\<rparr>)))))"
  by (simp add: updateDNSRecord_def GetZones_def GetAllRecords_def UpdateRecord_def
      CreateRecord_def split: sum.splits option.splits prod.splits)

text \<open>
  Claim C3. For an authenticated, validated request, an error of
  \<open>updateDNSRecord\<close> for either address family gives status 200 with the body
  \<open>911\<close> and nothing else, also when the IPv4 family had been applied before the
  IPv6 family failed. \<open>updateDNSRecord\<close> returns an error exactly when the zone
  listing fails, no zone matches the hostname, the record listing fails, or the
  update or create call fails.
\<close>

theorem provider_failure_collapse:
  assumes auth: "BasicAuth r = Some (username s, password s)"
    and host: "Query_Get r ''hostname'' \<noteq> []"
    and off: "Query_Get r ''offline'' \<noteq> ''yes''"
    and v4: "Query_Get r ''myip'' = [] \<or> isValidIPv4 (Query_Get r ''myip'')"
    and v6: "Query_Get r ''myipv6'' = [] \<or> isValidIPv6 (Query_Get r ''myipv6'')"
  shows "(Query_Get r ''myip'' \<noteq> []
            \<and> fst (updateDNSRecord s (Query_Get r ''hostname'') (Query_Get r ''myip'') ''A'' log)
                \<noteq> None
          \<longrightarrow> fst (handleUpdate s NewRecorder r log) = Write NewRecorder ''911'')
       \<and> (Query_Get r ''myipv6'' \<noteq> []
            \<and> (if Query_Get r ''myip'' \<noteq> []
                then updateDNSRecord s (Query_Get r ''hostname'') (Query_Get r ''myip'') ''A'' log
                else (None, log)) = (None, log4)
            \<and> fst (updateDNSRecord s (Query_Get r ''hostname'') (Query_Get r ''myipv6'') ''AAAA'' log4)
                \<noteq> None
          \<longrightarrow> fst (handleUpdate s NewRecorder r log) = Write NewRecorder ''911'')
       \<and> Code (Write NewRecorder ''911'') = StatusOK
       \<and> Body (Write NewRecorder ''911'') = ''911''
       \<and> (fst (updateDNSRecord s h ip t l) \<noteq> None \<longleftrightarrow>
             (case zonesReply (client s) l of
                Inl e \<Rightarrow> True
              | Inr zones \<Rightarrow>
                  (case findZone h zones of
                     None \<Rightarrow> True
                   | Some (z, n) \<Rightarrow>
                       (case recordsReply (client s) (l @ [CallGetZones]) (Zone_ID z) of
                          Inl e \<Rightarrow> True
                        | Inr rs \<Rightarrow>
                            (case findRecord n t rs of
                               Some ex \<Rightarrow>
                                 isl (updateReply (client s)
                                        (l @ [CallGetZones, CallGetAllRecords (Zone_ID z)])
                                        (DNSRecord_ID ex)
                                        \<lparr>UpdateRecordRequest_ZoneID = Zone_ID z,
                                         UpdateRecordRequest_Type = t,
                                         UpdateRecordRequest_Name = n,
                                         UpdateRecordRequest_Value = ip,
                                         UpdateRecordRequest_TTL = DNSRecord_TTL ex\<rparr>)
                             | None \<Rightarrow>
                                 isl (createReply (client s)
                                        (l @ [CallGetZones, CallGetAllRecords (Zone_ID z)])
                                        \<lparr>CreateRecordRequest_Type = t,
                                         CreateRecordRequest_Name = n,
                                         CreateRecordRequest_Value = ip,
                                         CreateRecordRequest_TTL = Some 3600,
                                         CreateRecordRequest_ZoneID = Zone_ID z\<rparr>))))))"
proof (intro conjI impI)
  assume a: "Query_Get r ''myip'' \<noteq> []
            \<and> fst (updateDNSRecord s (Query_Get r ''hostname'') (Query_Get r ''myip'') ''A'' log)
                \<noteq> None"
  then obtain e l4 where
    "updateDNSRecord s (Query_Get r ''hostname'') (Query_Get r ''myip'') ''A'' log = (Some e, l4)"
    by (cases "updateDNSRecord s (Query_Get r ''hostname'') (Query_Get r ''myip'') ''A'' log") auto
  with a show "fst (handleUpdate s NewRecorder r log) = Write NewRecorder ''911''"
    by (simp add: handleUpdate_v4_fails [OF auth host off v4 v6])
next
  assume a: "Query_Get r ''myipv6'' \<noteq> []
            \<and> (if Query_Get r ''myip'' \<noteq> []
                then updateDNSRecord s (Query_Get r ''hostname'') (Query_Get r ''myip'') ''A'' log
                else (None, log)) = (None, log4)
            \<and> fst (updateDNSRecord s (Query_Get r ''hostname'') (Query_Get r ''myipv6'') ''AAAA'' log4)
                \<noteq> None"
  then obtain e l6 where
    "updateDNSRecord s (Query_Get r ''hostname'') (Query_Get r ''myipv6'') ''AAAA'' log4 = (Some e, l6)"
    by (cases "updateDNSRecord s (Query_Get r ''hostname'') (Query_Get r ''myipv6'') ''AAAA'' log4")
       auto
  with a show "fst (handleUpdate s NewRecorder r log) = Write NewRecorder ''911''"
    by (simp add: handleUpdate_v6_fails [OF auth host off v4 v6])
next
  show "Code (Write NewRecorder ''911'') = StatusOK"
    by (simp add: Code_Write_NewRecorder StatusOK_def)
next
  show "Body (Write NewRecorder ''911'') = ''911''"
    by (simp add: Body_Write_NewRecorder)
qed (rule updateDNSRecord_fails_iff)

lemma good_prefix_neq: "''good '' @ x \<noteq> ''good''"
  by simp

lemma handleUpdate_online_body_not_good:
  assumes auth: "BasicAuth r = Some (username s, password s)"
    and host: "Query_Get r ''hostname'' \<noteq> []"
    and off: "Query_Get r ''offline'' \<noteq> ''yes''"
  shows "Body (fst (handleUpdate s NewRecorder r log)) \<noteq> ''good''"
proof (cases "Query_Get r ''myip'' \<noteq> [] \<and> \<not> isValidIPv4 (Query_Get r ''myip'')")
  case True
  then show ?thesis
    by (simp add: handleUpdate_invalid4 [OF auth host off] Body_Error_NewRecorder)
next
  case False
  then have v4: "Query_Get r ''myip'' = [] \<or> isValidIPv4 (Query_Get r ''myip'')" by blast
  show ?thesis
  proof (cases "Query_Get r ''myipv6'' \<noteq> [] \<and> \<not> isValidIPv6 (Query_Get r ''myipv6'')")
    case True
    then show ?thesis
      by (simp add: handleUpdate_invalid6 [OF auth host off v4] Body_Error_NewRecorder)
  next
    case False
    then have v6: "Query_Get r ''myipv6'' = [] \<or> isValidIPv6 (Query_Get r ''myipv6'')" by blast
    show ?thesis
    proof (cases "Query_Get r ''myip'' = [] \<and> Query_Get r ''myipv6'' = []")
      case True
      then show ?thesis
        by (simp add: handleUpdate_no_address [OF auth host off] Body_Error_NewRecorder)
    next
      case False
      then have some: "Query_Get r ''myip'' \<noteq> [] \<or> Query_Get r ''myipv6'' \<noteq> []" by blast
      show ?thesis
        unfolding handleUpdate_validated [OF auth host off v4 v6 some]
        by (simp add: Body_Write_NewRecorder split: prod.splits option.splits)
    qed
  qed
qed

text \<open>
  Claim C7, amended. For an authenticated request with a non-empty hostname and
  \<open>offline\<close> other than \<open>yes\<close> that supplies at least one address family, all
  supplied families valid and applied without error, the answer is status 200 with
  the body \<open>good IPv4: ip\<close>, \<open>good IPv6: ip\<close> or \<open>good IPv4: ip, IPv6: ip\<close>, the
  IPv4 summary first. The bare \<open>good\<close> is not among the answers of the apply
  stage: a request that supplies no family is answered with status 400 and no
  provider call, and the body is \<open>good\<close> exactly when \<open>offline=yes\<close>.
\<close>

theorem success_response_format:
  assumes auth: "BasicAuth r = Some (username s, password s)"
    and host: "Query_Get r ''hostname'' \<noteq> []"
  shows "(Query_Get r ''offline'' \<noteq> ''yes''
            \<and> (Query_Get r ''myip'' = [] \<or> isValidIPv4 (Query_Get r ''myip''))
            \<and> (Query_Get r ''myipv6'' = [] \<or> isValidIPv6 (Query_Get r ''myipv6''))
            \<and> (Query_Get r ''myip'' \<noteq> [] \<or> Query_Get r ''myipv6'' \<noteq> [])
            \<and> (if Query_Get r ''myip'' \<noteq> []
                then updateDNSRecord s (Query_Get r ''hostname'') (Query_Get r ''myip'') ''A'' log
                else (None, log)) = (None, log4)
            \<and> (if Query_Get r ''myipv6'' \<noteq> []
                then updateDNSRecord s (Query_Get r ''hostname'') (Query_Get r ''myipv6'') ''AAAA'' log4
                else (None, log4)) = (None, log6)
          \<longrightarrow>
            Code (fst (handleUpdate s NewRecorder r log)) = StatusOK
            \<and> Body (fst (handleUpdate s NewRecorder r log))
                = (if Query_Get r ''myip'' \<noteq> [] \<and> Query_Get r ''myipv6'' \<noteq> []
                   then ''good IPv4: '' @ Query_Get r ''myip'' @ '', IPv6: '' @ Query_Get r ''myipv6''
                   else if Query_Get r ''myip'' \<noteq> []
                   then ''good IPv4: '' @ Query_Get r ''myip''
                   else ''good IPv6: '' @ Query_Get r ''myipv6''))
       \<and> (Query_Get r ''offline'' \<noteq> ''yes''
            \<and> Query_Get r ''myip'' = [] \<and> Query_Get r ''myipv6'' = []
          \<longrightarrow>
            Code (fst (handleUpdate s NewRecorder r log)) = StatusBadRequest
            \<and> snd (handleUpdate s NewRecorder r log) = log)
       \<and> (Body (fst (handleUpdate s NewRecorder r log)) = ''good''
            \<longleftrightarrow> Query_Get r ''offline'' = ''yes'')"
proof (intro conjI impI)
  assume a: "Query_Get r ''offline'' \<noteq> ''yes''
            \<and> (Query_Get r ''myip'' = [] \<or> isValidIPv4 (Query_Get r ''myip''))
            \<and> (Query_Get r ''myipv6'' = [] \<or> isValidIPv6 (Query_Get r ''myipv6''))
            \<and> (Query_Get r ''myip'' \<noteq> [] \<or> Query_Get r ''myipv6'' \<noteq> [])
            \<and> (if Query_Get r ''myip'' \<noteq> []
                then updateDNSRecord s (Query_Get r ''hostname'') (Query_Get r ''myip'') ''A'' log
                else (None, log)) = (None, log4)
            \<and> (if Query_Get r ''myipv6'' \<noteq> []
                then updateDNSRecord s (Query_Get r ''hostname'') (Query_Get r ''myipv6'') ''AAAA'' log4
                else (None, log4)) = (None, log6)"
  then have off: "Query_Get r ''offline'' \<noteq> ''yes''"
    and v4: "Query_Get r ''myip'' = [] \<or> isValidIPv4 (Query_Get r ''myip'')"
    and v6: "Query_Get r ''myipv6'' = [] \<or> isValidIPv6 (Query_Get r ''myipv6'')"
    and some: "Query_Get r ''myip'' \<noteq> [] \<or> Query_Get r ''myipv6'' \<noteq> []"
    and ok4: "(if Query_Get r ''myip'' \<noteq> []
                then updateDNSRecord s (Query_Get r ''hostname'') (Query_Get r ''myip'') ''A'' log
                else (None, log)) = (None, log4)"
    and ok6: "(if Query_Get r ''myipv6'' \<noteq> []
                then updateDNSRecord s (Query_Get r ''hostname'') (Query_Get r ''myipv6'') ''AAAA'' log4
                else (None, log4)) = (None, log6)"
    by blast+
  note run = handleUpdate_success [OF auth host off v4 v6 some ok4 ok6]
  show "Code (fst (handleUpdate s NewRecorder r log)) = StatusOK"
    by (simp add: run Code_Write_NewRecorder StatusOK_def)
  show "Body (fst (handleUpdate s NewRecorder r log))
                = (if Query_Get r ''myip'' \<noteq> [] \<and> Query_Get r ''myipv6'' \<noteq> []
                   then ''good IPv4: '' @ Query_Get r ''myip'' @ '', IPv6: '' @ Query_Get r ''myipv6''
                   else if Query_Get r ''myip'' \<noteq> []
                   then ''good IPv4: '' @ Query_Get r ''myip''
                   else ''good IPv6: '' @ Query_Get r ''myipv6'')"
    using some by (simp add: run Body_Write_NewRecorder)
next
  assume a: "Query_Get r ''offline'' \<noteq> ''yes''
            \<and> Query_Get r ''myip'' = [] \<and> Query_Get r ''myipv6'' = []"
  then have off: "Query_Get r ''offline'' \<noteq> ''yes''"
    and e4: "Query_Get r ''myip'' = []" and e6: "Query_Get r ''myipv6'' = []"
    by blast+
  show "Code (fst (handleUpdate s NewRecorder r log)) = StatusBadRequest"
    by (simp add: handleUpdate_no_address [OF auth host off e4 e6] Code_Error_NewRecorder)
  show "snd (handleUpdate s NewRecorder r log) = log"
    by (simp add: handleUpdate_no_address [OF auth host off e4 e6])
next
  show "Body (fst (handleUpdate s NewRecorder r log)) = ''good''
            \<longleftrightarrow> Query_Get r ''offline'' = ''yes''"
  proof
    assume "Body (fst (handleUpdate s NewRecorder r log)) = ''good''"
    then show "Query_Get r ''offline'' = ''yes''"
      using handleUpdate_online_body_not_good [OF auth host] by blast
  next
    assume off: "Query_Get r ''offline'' = ''yes''"
    show "Body (fst (handleUpdate s NewRecorder r log)) = ''good''"
      by (simp add: handleUpdate_offline [OF auth host off] Body_Write_NewRecorder)
  qed
qed

text \<open>
  The claim as written lists the bare \<open>good\<close> for a request with no family
  applied. The request \<open>hostname=test.com\<close> supplies no family, so none of its
  families fails, and it is answered with status 400.
\<close>

theorem success_response_no_family_counterexample:
  "BasicAuth (testRequest ''admin'' ''password'' [(''hostname'', ''test.com'')])
     = Some (username testServer, password testServer)
   \<and> Query_Get (testRequest ''admin'' ''password'' [(''hostname'', ''test.com'')]) ''myip'' = []
   \<and> Query_Get (testRequest ''admin'' ''password'' [(''hostname'', ''test.com'')]) ''myipv6'' = []
   \<and> snd (handleUpdate testServer NewRecorder
        (testRequest ''admin'' ''password'' [(''hostname'', ''test.com'')]) []) = []
   \<and> Code (fst (handleUpdate testServer NewRecorder
        (testRequest ''admin'' ''password'' [(''hostname'', ''test.com'')]) [])) = 400
   \<and> Body (fst (handleUpdate testServer NewRecorder
        (testRequest ''admin'' ''password'' [(''hostname'', ''test.com'')]) []))
       = ''No valid IP address provided or detected'' @ [CHR 0x0A]"
proof -
  let ?r = "testRequest ''admin'' ''password'' [(''hostname'', ''test.com'')]"
  have a: "BasicAuth ?r = Some (username testServer, password testServer)"
    by (simp add: testRequest_def testServer_def NewDynDNSServer_def)
  have h: "Query_Get ?r ''hostname'' \<noteq> []" and off: "Query_Get ?r ''offline'' \<noteq> ''yes''"
    and e4: "Query_Get ?r ''myip'' = []" and e6: "Query_Get ?r ''myipv6'' = []"
    by (simp_all add: testRequest_def Query_Get_def)
  note run = handleUpdate_no_address [OF a h off e4 e6, of NewRecorder "[]"]
  have "snd (handleUpdate testServer NewRecorder ?r []) = []"
    and "Code (fst (handleUpdate testServer NewRecorder ?r [])) = 400"
    and "Body (fst (handleUpdate testServer NewRecorder ?r []))
       = ''No valid IP address provided or detected'' @ [CHR 0x0A]"
    by (simp_all add: run Code_Error_NewRecorder Body_Error_NewRecorder StatusBadRequest_def)
  with a e4 e6 show ?thesis by blast
qed

lemma findZone_mockAPI_test:
  "findZone ''test.example.com'' [zeroZone\<lparr>Zone_ID := ''zone123'', Zone_Name := ''example.com''\<rparr>]
     = Some (zeroZone\<lparr>Zone_ID := ''zone123'', Zone_Name := ''example.com''\<rparr>, ''test'')"
  by (simp add: zeroZone_def HasSuffix_def TrimSuffix_def)

lemma testServer_update_A:
  "updateDNSRecord testServer ''test.example.com'' ''1.2.3.5'' ''A'' log
     = (None, log @ [CallGetZones, CallGetAllRecords ''zone123'',
                 CallUpdateRecord ''record123''
                   \<lparr>UpdateRecordRequest_ZoneID = ''zone123'', UpdateRecordRequest_Type = ''A'',
                    UpdateRecordRequest_Name = ''test'', UpdateRecordRequest_Value = ''1.2.3.5'',
                    UpdateRecordRequest_TTL = None\<rparr>])"
proof -
  let ?rec = "zeroDNSRecord\<lparr>DNSRecord_ID := ''record123'', DNSRecord_Type := ''A'',
                DNSRecord_Name := ''test'', DNSRecord_Value := ''1.2.3.4''\<rparr>"
  let ?zone = "zeroZone\<lparr>Zone_ID := ''zone123'', Zone_Name := ''example.com''\<rparr>"
  have z: "zonesReply (client testServer) log = Inr [?zone]"
    by (simp add: testServer_def NewDynDNSServer_def mockAPI_def)
  have rs: "recordsReply (client testServer) (log @ [CallGetZones]) (Zone_ID ?zone) = Inr [?rec]"
    by (simp add: testServer_def NewDynDNSServer_def mockAPI_def)
  have f: "findRecord ''test'' ''A'' [?rec] = Some ?rec"
    by simp
  show ?thesis
    unfolding updateDNSRecord_existing [OF z findZone_mockAPI_test rs f]
    by (simp add: testServer_def NewDynDNSServer_def mockAPI_def zeroDNSRecord_def)
qed

lemma testServer_create_AAAA:
  "fst (updateDNSRecord testServer ''test.example.com'' ''2001:db8::1'' ''AAAA'' log)
     = Some (''failed to create record: '' @ ''API request failed with status 404: '')"
proof -
  let ?rec = "zeroDNSRecord\<lparr>DNSRecord_ID := ''record123'', DNSRecord_Type := ''A'',
                DNSRecord_Name := ''test'', DNSRecord_Value := ''1.2.3.4''\<rparr>"
  let ?zone = "zeroZone\<lparr>Zone_ID := ''zone123'', Zone_Name := ''example.com''\<rparr>"
  have z: "zonesReply (client testServer) log = Inr [?zone]"
    by (simp add: testServer_def NewDynDNSServer_def mockAPI_def)
  have rs: "recordsReply (client testServer) (log @ [CallGetZones]) (Zone_ID ?zone) = Inr [?rec]"
    by (simp add: testServer_def NewDynDNSServer_def mockAPI_def)
  have f: "findRecord ''test'' ''AAAA'' [?rec] = None"
    by simp
  show ?thesis
    unfolding updateDNSRecord_missing [OF z findZone_mockAPI_test rs f]
    by (simp add: testServer_def NewDynDNSServer_def mockAPI_def)
qed

lemma testServer_no_zone:
  "fst (updateDNSRecord testServer ''test.notfound.com'' ''1.2.3.4'' ''A'' log)
     = Some (''no zone found for hostname: '' @ ''test.notfound.com'')"
proof -
  let ?zone = "zeroZone\<lparr>Zone_ID := ''zone123'', Zone_Name := ''example.com''\<rparr>"
  have z: "zonesReply (client testServer) log = Inr [?zone]"
    by (simp add: testServer_def NewDynDNSServer_def mockAPI_def)
  have f: "findZone ''test.notfound.com'' [?zone] = None"
    by (simp add: zeroZone_def HasSuffix_def)
  show ?thesis
    unfolding updateDNSRecord_no_zone [OF z f] by simp
qed

theorem provider_failure_collapse_witness:
  "fst (updateDNSRecord testServer ''test.example.com'' ''1.2.3.5'' ''A'' []) = None
   \<and> fst (handleUpdate testServer NewRecorder
        (testRequest ''admin'' ''password''
           [(''hostname'', ''test.example.com''), (''myip'', ''1.2.3.5''),
            (''myipv6'', ''2001:db8::1'')]) [])
      = Write NewRecorder ''911''
   \<and> fst (handleUpdate testServer NewRecorder
        (testRequest ''admin'' ''password''
           [(''hostname'', ''test.notfound.com''), (''myip'', ''1.2.3.4'')]) [])
      = Write NewRecorder ''911''
   \<and> Code (Write NewRecorder ''911'') = 200
   \<and> Body (Write NewRecorder ''911'') = ''911''"
proof -
  let ?rA = "testRequest ''admin'' ''password''
           [(''hostname'', ''test.example.com''), (''myip'', ''1.2.3.5''),
            (''myipv6'', ''2001:db8::1'')]"
  let ?rB = "testRequest ''admin'' ''password''
           [(''hostname'', ''test.notfound.com''), (''myip'', ''1.2.3.4'')]"
  have auth: "BasicAuth (testRequest ''admin'' ''password'' q)
                = Some (username testServer, password testServer)" for q
    by (simp add: testRequest_def testServer_def NewDynDNSServer_def)
  have qA: "Query_Get ?rA ''hostname'' = ''test.example.com''" "Query_Get ?rA ''offline'' = []"
    "Query_Get ?rA ''myip'' = ''1.2.3.5''" "Query_Get ?rA ''myipv6'' = ''2001:db8::1''"
    by (simp_all add: testRequest_def Query_Get_def)
  have qB: "Query_Get ?rB ''hostname'' = ''test.notfound.com''" "Query_Get ?rB ''offline'' = []"
    "Query_Get ?rB ''myip'' = ''1.2.3.4''" "Query_Get ?rB ''myipv6'' = []"
    by (simp_all add: testRequest_def Query_Get_def)
  have hA: "Query_Get ?rA ''hostname'' \<noteq> []" and oA: "Query_Get ?rA ''offline'' \<noteq> ''yes''"
    and v4A: "Query_Get ?rA ''myip'' = [] \<or> isValidIPv4 (Query_Get ?rA ''myip'')"
    and v6A: "Query_Get ?rA ''myipv6'' = [] \<or> isValidIPv6 (Query_Get ?rA ''myipv6'')"
    using isValidIPv4_1235 isValidIPv6_doc by (simp_all add: qA)
  have hB: "Query_Get ?rB ''hostname'' \<noteq> []" and oB: "Query_Get ?rB ''offline'' \<noteq> ''yes''"
    and v4B: "Query_Get ?rB ''myip'' = [] \<or> isValidIPv4 (Query_Get ?rB ''myip'')"
    and v6B: "Query_Get ?rB ''myipv6'' = [] \<or> isValidIPv6 (Query_Get ?rB ''myipv6'')"
    using isValidIPv4_1234 by (simp_all add: qB)
  have ok4: "fst (updateDNSRecord testServer ''test.example.com'' ''1.2.3.5'' ''A'' []) = None"
    by (simp add: testServer_update_A)
  have pA: "fst (handleUpdate testServer NewRecorder ?rA []) = Write NewRecorder ''911''"
    using provider_failure_collapse [OF auth hA oA v4A v6A,
        where log = "[]"
          and ?log4.0 = "snd (updateDNSRecord testServer ''test.example.com'' ''1.2.3.5'' ''A'' [])"]
    by (simp add: qA testServer_update_A testServer_create_AAAA)
  have pB: "fst (handleUpdate testServer NewRecorder ?rB []) = Write NewRecorder ''911''"
    using provider_failure_collapse [OF auth hB oB v4B v6B, where log = "[]"]
    by (simp add: qB testServer_no_zone)
  have c: "Code (Write NewRecorder ''911'') = 200 \<and> Body (Write NewRecorder ''911'') = ''911''"
    using provider_failure_collapse [OF auth hB oB v4B v6B]
    by (simp add: StatusOK_def)
  from ok4 pA pB c show ?thesis by blast
qed

theorem success_response_format_witness:
  "Body (fst (handleUpdate testServer2 NewRecorder
        (testRequest ''admin'' ''password''
           [(''hostname'', ''test.example.com''), (''myip'', ''1.2.3.4''),
            (''myipv6'', ''2001:db8::1'')]) []))
      = ''good IPv4: 1.2.3.4, IPv6: 2001:db8::1''
   \<and> Body (fst (handleUpdate testServer2 NewRecorder
        (testRequest ''admin'' ''password''
           [(''hostname'', ''test.example.com''), (''myip'', ''1.2.3.4'')]) []))
      = ''good IPv4: 1.2.3.4''
   \<and> Body (fst (handleUpdate testServer2 NewRecorder
        (testRequest ''admin'' ''password''
           [(''hostname'', ''test.example.com''), (''myipv6'', ''2001:db8::1'')]) []))
      = ''good IPv6: 2001:db8::1''
   \<and> Code (fst (handleUpdate testServer2 NewRecorder
        (testRequest ''admin'' ''password''
           [(''hostname'', ''test.example.com''), (''myip'', ''1.2.3.4''),
            (''myipv6'', ''2001:db8::1'')]) []))
      = 200
   \<and> Code (fst (handleUpdate testServer2 NewRecorder
        (testRequest ''admin'' ''password'' [(''hostname'', ''test.example.com'')]) []))
      = 400
   \<and> Body (fst (handleUpdate testServer2 NewRecorder
        (testRequest ''admin'' ''password'' [(''hostname'', ''test.example.com'')]) []))
      \<noteq> ''good''"
proof -
  let ?rb = "testRequest ''admin'' ''password''
           [(''hostname'', ''test.example.com''), (''myip'', ''1.2.3.4''),
            (''myipv6'', ''2001:db8::1'')]"
  let ?r4 = "testRequest ''admin'' ''password''
           [(''hostname'', ''test.example.com''), (''myip'', ''1.2.3.4'')]"
  let ?r6 = "testRequest ''admin'' ''password''
           [(''hostname'', ''test.example.com''), (''myipv6'', ''2001:db8::1'')]"
  have auth: "BasicAuth (testRequest ''admin'' ''password'' q)
                = Some (username testServer2, password testServer2)" for q
    by (simp add: testRequest_def testServer2_def NewDynDNSServer_def)
  have qb: "Query_Get ?rb ''hostname'' = ''test.example.com''" "Query_Get ?rb ''offline'' = []"
    "Query_Get ?rb ''myip'' = ''1.2.3.4''" "Query_Get ?rb ''myipv6'' = ''2001:db8::1''"
    by (simp_all add: testRequest_def Query_Get_def)
  have q4: "Query_Get ?r4 ''hostname'' = ''test.example.com''" "Query_Get ?r4 ''offline'' = []"
    "Query_Get ?r4 ''myip'' = ''1.2.3.4''" "Query_Get ?r4 ''myipv6'' = []"
    by (simp_all add: testRequest_def Query_Get_def)
  have q6: "Query_Get ?r6 ''hostname'' = ''test.example.com''" "Query_Get ?r6 ''offline'' = []"
    "Query_Get ?r6 ''myip'' = []" "Query_Get ?r6 ''myipv6'' = ''2001:db8::1''"
    by (simp_all add: testRequest_def Query_Get_def)
  have hb: "Query_Get ?rb ''hostname'' \<noteq> []" and h4: "Query_Get ?r4 ''hostname'' \<noteq> []"
    and h6: "Query_Get ?r6 ''hostname'' \<noteq> []"
    by (simp_all add: qb q4 q6)
  have pb: "Code (fst (handleUpdate testServer2 NewRecorder ?rb [])) = 200
            \<and> Body (fst (handleUpdate testServer2 NewRecorder ?rb []))
                = ''good IPv4: 1.2.3.4, IPv6: 2001:db8::1''"
    using success_response_format [OF auth hb, where log = "[]"
        and ?log4.0 = "snd (updateDNSRecord testServer2 ''test.example.com'' ''1.2.3.4'' ''A'' [])"
        and ?log6.0 = "snd (updateDNSRecord testServer2 ''test.example.com'' ''2001:db8::1'' ''AAAA''
                         (snd (updateDNSRecord testServer2 ''test.example.com'' ''1.2.3.4'' ''A'' [])))"]
      isValidIPv4_1234 isValidIPv6_doc
    by (simp add: qb testServer2_update_A testServer2_create_AAAA StatusOK_def)
  have p4: "Body (fst (handleUpdate testServer2 NewRecorder ?r4 [])) = ''good IPv4: 1.2.3.4''"
    using success_response_format [OF auth h4, where log = "[]"
        and ?log4.0 = "snd (updateDNSRecord testServer2 ''test.example.com'' ''1.2.3.4'' ''A'' [])"
        and ?log6.0 = "snd (updateDNSRecord testServer2 ''test.example.com'' ''1.2.3.4'' ''A'' [])"]
      isValidIPv4_1234
    by (simp add: q4 testServer2_update_A)
  have p6: "Body (fst (handleUpdate testServer2 NewRecorder ?r6 [])) = ''good IPv6: 2001:db8::1''"
    using success_response_format [OF auth h6, where log = "[]"
        and ?log4.0 = "[]"
        and ?log6.0 = "snd (updateDNSRecord testServer2 ''test.example.com'' ''2001:db8::1'' ''AAAA'' [])"]
      isValidIPv6_doc
    by (simp add: q6 testServer2_create_AAAA)
  let ?rn = "testRequest ''admin'' ''password'' [(''hostname'', ''test.example.com'')]"
  have qn: "Query_Get ?rn ''hostname'' = ''test.example.com''" "Query_Get ?rn ''offline'' = []"
    "Query_Get ?rn ''myip'' = []" "Query_Get ?rn ''myipv6'' = []"
    by (simp_all add: testRequest_def Query_Get_def)
  have hn: "Query_Get ?rn ''hostname'' \<noteq> []"
    by (simp add: qn)
  have pn: "Code (fst (handleUpdate testServer2 NewRecorder ?rn [])) = 400
            \<and> Body (fst (handleUpdate testServer2 NewRecorder ?rn [])) \<noteq> ''good''"
    using success_response_format [OF auth hn, where log = "[]"]
    by (simp add: qn StatusBadRequest_def)
  from pb p4 p6 pn show ?thesis by blast
qed

section \<open>JSON round trip\<close>
















end
